theory Spec2Isabelle
  imports Complex_Main "HOL-Library.Monad_Syntax" "HOL-Library.Word"
begin

section \<open>JavaScript values\<close>

text \<open>
  A number is an IEEE double: a finite value, one of the two infinities, or NaN. Finite
  doubles are represented by the real number they denote (both zeros by 0). The validators
  only compare numbers, and comparison of doubles is comparison of their values, so no
  rounding is involved there.
\<close>

datatype jsnum = Fin real | PosInf | NegInf | NaN

fun isFinite :: "jsnum \<Rightarrow> bool" where
  "isFinite (Fin r) = True"
| "isFinite n = False"

fun num_lt :: "jsnum \<Rightarrow> jsnum \<Rightarrow> bool" where
  "num_lt NaN b = False"
| "num_lt a NaN = False"
| "num_lt (Fin a) (Fin b) = (a < b)"
| "num_lt (Fin a) PosInf = True"
| "num_lt NegInf (Fin b) = True"
| "num_lt NegInf PosInf = True"
| "num_lt a b = False"

definition num_gt :: "jsnum \<Rightarrow> jsnum \<Rightarrow> bool" where
  "num_gt a b = num_lt b a"

fun num_le :: "jsnum \<Rightarrow> jsnum \<Rightarrow> bool" where
  "num_le NaN b = False"
| "num_le a NaN = False"
| "num_le a b = (\<not> num_lt b a)"

fun num_abs :: "jsnum \<Rightarrow> jsnum" where
  "num_abs (Fin r) = Fin \<bar>r\<bar>"
| "num_abs NegInf = PosInf"
| "num_abs n = n"

text \<open>
  Values: the JSON-like values and \<open>undefined\<close>. An object is the list of its own
  properties in insertion order. A string is the list of its code units. Functions,
  symbols, big integers and objects with accessors or a prototype of their own are not
  among the values.
\<close>

datatype jsval =
    JUndefined
  | JNull
  | JBool bool
  | JNum jsnum
  | JStr string
  | JArr "jsval list"
  | JObj "(string \<times> jsval) list"

text \<open>Truthiness, as \<open>!v\<close> and \<open>v ? a : b\<close> test it.\<close>

fun truthy :: "jsval \<Rightarrow> bool" where
  "truthy JUndefined = False"
| "truthy JNull = False"
| "truthy (JBool b) = b"
| "truthy (JNum n) = (n \<noteq> Fin 0 \<and> n \<noteq> NaN)"
| "truthy (JStr s) = (s \<noteq> [])"
| "truthy (JArr xs) = True"
| "truthy (JObj kvs) = True"

fun typeof :: "jsval \<Rightarrow> string" where
  "typeof JUndefined = ''undefined''"
| "typeof JNull = ''object''"
| "typeof (JBool b) = ''boolean''"
| "typeof (JNum n) = ''number''"
| "typeof (JStr s) = ''string''"
| "typeof (JArr xs) = ''object''"
| "typeof (JObj kvs) = ''object''"

fun isArray :: "jsval \<Rightarrow> bool" where
  "isArray (JArr xs) = True"
| "isArray v = False"

text \<open>
  Property read \<open>v.k\<close>, for the property names the code uses (none of them is an array
  index or a method name). Reading a property of \<open>undefined\<close> or \<open>null\<close> throws a
  TypeError: the result \<open>None\<close>.
\<close>

fun get :: "jsval \<Rightarrow> string \<Rightarrow> jsval option" where
  "get JUndefined k = None"
| "get JNull k = None"
| "get (JObj kvs) k = (case map_of kvs k of None \<Rightarrow> Some JUndefined | Some v \<Rightarrow> Some v)"
| "get (JArr xs) k = Some (if k = ''length'' then JNum (Fin (real (length xs))) else JUndefined)"
| "get (JStr s) k = Some (if k = ''length'' then JNum (Fin (real (length s))) else JUndefined)"
| "get (JBool b) k = Some JUndefined"
| "get (JNum n) k = Some JUndefined"

text \<open>
  The operator \<open>k in v\<close>, for the same property names; it throws a TypeError when
  \<open>v\<close> is not an object.
\<close>

fun has_in :: "string \<Rightarrow> jsval \<Rightarrow> bool option" where
  "has_in k (JObj kvs) = Some (k \<in> fst ` set kvs)"
| "has_in k (JArr xs) = Some (k = ''length'')"
| "has_in k v = None"

text \<open>
  The number held by a value whose \<open>typeof\<close> is \<open>'number'\<close>. The code compares and
  takes absolute values only of values it has already found to be numbers, so the second
  equation is never the one that decides a result.
\<close>

fun numof :: "jsval \<Rightarrow> jsnum" where
  "numof (JNum n) = n"
| "numof v = NaN"

text \<open>\<open>xs.includes(v)\<close> on an array of strings.\<close>

definition arr_includes :: "string list \<Rightarrow> jsval \<Rightarrow> bool" where
  "arr_includes xs v = (v \<in> JStr ` set xs)"

fun join :: "string list \<Rightarrow> string \<Rightarrow> string" where
  "join [] sep = []"
| "join [x] sep = x"
| "join (x # xs) sep = x @ sep @ join xs sep"

section \<open>Regular expressions\<close>

text \<open>
  \<open>re.test(s)\<close> for a pattern anchored by \<open>^\<close> and \<open>$\<close> decides whether the
  whole string is in the language of the pattern; it is computed here with derivatives.
\<close>

datatype regex =
    Empty
  | Eps
  | Cls "char list"
  | Seq regex regex
  | Alt regex regex
  | Star regex

fun nullable :: "regex \<Rightarrow> bool" where
  "nullable Empty = False"
| "nullable Eps = True"
| "nullable (Cls cs) = False"
| "nullable (Seq r s) = (nullable r \<and> nullable s)"
| "nullable (Alt r s) = (nullable r \<or> nullable s)"
| "nullable (Star r) = True"

fun deriv :: "char \<Rightarrow> regex \<Rightarrow> regex" where
  "deriv c Empty = Empty"
| "deriv c Eps = Empty"
| "deriv c (Cls cs) = (if c \<in> set cs then Eps else Empty)"
| "deriv c (Seq r s) =
     (if nullable r then Alt (Seq (deriv c r) s) (deriv c s) else Seq (deriv c r) s)"
| "deriv c (Alt r s) = Alt (deriv c r) (deriv c s)"
| "deriv c (Star r) = Seq (deriv c r) (Star r)"

fun test :: "regex \<Rightarrow> string \<Rightarrow> bool" where
  "test r [] = nullable r"
| "test r (c # cs) = test (deriv c r) cs"

definition Opt :: "regex \<Rightarrow> regex" where
  "Opt r = Alt r Eps"

definition Plus :: "regex \<Rightarrow> regex" where
  "Plus r = Seq r (Star r)"

definition Lit :: "string \<Rightarrow> regex" where
  "Lit s = foldr (\<lambda>c r. Seq (Cls [c]) r) s Eps"

definition digit :: regex where
  "digit = Cls ''0123456789''"

definition hexdigit :: regex where
  "hexdigit = Cls ''0123456789ABCDEFabcdef''"

text \<open>\<open>\d+(?:\.\d+)?\<close>\<close>

definition decimal :: regex where
  "decimal = Seq (Plus digit) (Opt (Seq (Lit ''.'') (Plus digit)))"

text \<open>\<open>/^(\d+(?:\.\d+)?)(?:x(\d+(?:\.\d+)?))?(cm|m)$/\<close>\<close>

definition spacingPattern :: regex where
  "spacingPattern =
     Seq decimal (Seq (Opt (Seq (Lit ''x'') decimal)) (Alt (Lit ''cm'') (Lit ''m'')))"

text \<open>\<open>/^#[0-9A-Fa-f]{6}$/\<close>\<close>

definition colorPattern :: regex where
  "colorPattern =
     Seq (Lit ''#'') (Seq hexdigit (Seq hexdigit (Seq hexdigit
       (Seq hexdigit (Seq hexdigit hexdigit)))))"


text \<open>
  The string held by a value whose \<open>typeof\<close> is \<open>'string'\<close>; \<open>re.test\<close> is only
  applied behind that check.
\<close>

fun strof :: "jsval \<Rightarrow> string" where
  "strof (JStr s) = s"
| "strof v = []"

section \<open>Domain types\<close>

text \<open>
  Modelled from the spec: the declarations of \<open>Plant\<close>, \<open>Terrain\<close>, \<open>Structure\<close> and
  \<open>DrawingElement\<close> (module \<open>types/canvasTypes\<close>) are not among the sources. The fields
  are those of the data model of the specification, together with \<open>selectedBrushMode\<close>
  and \<open>brushThickness\<close>, which \<open>createExportData\<close> reads from an element. An optional
  field is an \<open>option\<close>: \<open>None\<close> when the property is \<open>undefined\<close>.
\<close>

record Size =
  width :: jsnum
  height :: jsnum

record Point =
  pt_x :: jsnum
  pt_y :: jsnum

record Plant =
  plant_id :: string
  plant_name :: string
  plant_spacing :: string
  plant_category :: string
  plant_color :: string

record Terrain =
  terrain_id :: string
  terrain_name :: string
  terrain_category :: string
  terrain_color :: string
  terrain_brushThickness :: "jsnum option"

record Structure =
  structure_id :: string
  structure_name :: string
  structure_category :: string
  structure_color :: string
  structure_size :: Size

datatype ElementType = TPlant | TTerrain | TStructure | TRectangle | TCircle

fun type_name :: "ElementType \<Rightarrow> string" where
  "type_name TPlant = ''plant''"
| "type_name TTerrain = ''terrain''"
| "type_name TStructure = ''structure''"
| "type_name TRectangle = ''rectangle''"
| "type_name TCircle = ''circle''"

record DrawingElement =
  el_id :: jsnum
  el_type :: ElementType
  el_x :: jsnum
  el_y :: jsnum
  el_width :: "jsnum option"
  el_height :: "jsnum option"
  el_radius :: "jsnum option"
  el_rotation :: "jsnum option"
  el_plant :: "Plant option"
  el_terrain :: "Terrain option"
  el_structure :: "Structure option"
  el_realWorldWidth :: "jsnum option"
  el_realWorldHeight :: "jsnum option"
  el_brushType :: "string option"
  el_texture :: "string option"
  el_pathPoints :: "Point list option"
  el_selected :: "bool option"
  el_selectedBrushMode :: "string option"
  el_brushThickness :: "jsnum option"

subsection \<open>Typed values as JavaScript values\<close>

fun js_opt :: "('a \<Rightarrow> jsval) \<Rightarrow> 'a option \<Rightarrow> jsval" where
  "js_opt f None = JUndefined"
| "js_opt f (Some a) = f a"

definition js_Size :: "Size \<Rightarrow> jsval" where
  "js_Size s = JObj [(''width'', JNum (width s)), (''height'', JNum (height s))]"

definition js_Point :: "Point \<Rightarrow> jsval" where
  "js_Point p = JObj [(''x'', JNum (pt_x p)), (''y'', JNum (pt_y p))]"

definition js_Plant :: "Plant \<Rightarrow> jsval" where
  "js_Plant p = JObj
     [(''id'', JStr (plant_id p)),
      (''name'', JStr (plant_name p)),
      (''spacing'', JStr (plant_spacing p)),
      (''category'', JStr (plant_category p)),
      (''color'', JStr (plant_color p))]"

definition js_Terrain :: "Terrain \<Rightarrow> jsval" where
  "js_Terrain t = JObj
     [(''id'', JStr (terrain_id t)),
      (''name'', JStr (terrain_name t)),
      (''category'', JStr (terrain_category t)),
      (''color'', JStr (terrain_color t)),
      (''brushThickness'', js_opt JNum (terrain_brushThickness t))]"

definition js_Structure :: "Structure \<Rightarrow> jsval" where
  "js_Structure s = JObj
     [(''id'', JStr (structure_id s)),
      (''name'', JStr (structure_name s)),
      (''category'', JStr (structure_category s)),
      (''color'', JStr (structure_color s)),
      (''size'', js_Size (structure_size s))]"

definition js_DrawingElement :: "DrawingElement \<Rightarrow> jsval" where
  "js_DrawingElement el = JObj
     [(''id'', JNum (el_id el)),
      (''type'', JStr (type_name (el_type el))),
      (''x'', JNum (el_x el)),
      (''y'', JNum (el_y el)),
      (''width'', js_opt JNum (el_width el)),
      (''height'', js_opt JNum (el_height el)),
      (''radius'', js_opt JNum (el_radius el)),
      (''rotation'', js_opt JNum (el_rotation el)),
      (''plant'', js_opt js_Plant (el_plant el)),
      (''terrain'', js_opt js_Terrain (el_terrain el)),
      (''structure'', js_opt js_Structure (el_structure el)),
      (''realWorldWidth'', js_opt JNum (el_realWorldWidth el)),
      (''realWorldHeight'', js_opt JNum (el_realWorldHeight el)),
      (''brushType'', js_opt JStr (el_brushType el)),
      (''texture'', js_opt JStr (el_texture el)),
      (''pathPoints'', js_opt (\<lambda>ps. JArr (map js_Point ps)) (el_pathPoints el)),
      (''selected'', js_opt JBool (el_selected el)),
      (''selectedBrushMode'', js_opt JStr (el_selectedBrushMode el)),
      (''brushThickness'', js_opt JNum (el_brushThickness el))]"

section \<open>Validator\<close>

record ValidationResult =
  isValid :: bool
  error :: "string option"
  warning :: "string option"

text \<open>The object literals \<open>{ isValid: true }\<close> and \<open>{ isValid: false, error: msg }\<close>.\<close>

definition valid :: ValidationResult where
  "valid = \<lparr>isValid = True, error = None, warning = None\<rparr>"

definition invalid :: "string \<Rightarrow> ValidationResult" where
  "invalid msg = \<lparr>isValid = False, error = Some msg, warning = None\<rparr>"

text \<open>
  An option of \<open>CanvasValidationOptions\<close> at run time: the property is not there, it is
  there with the value \<open>undefined\<close> (which the optional property of the type admits)
  or \<open>null\<close>, or it is there with a value.
\<close>

datatype 'a setting = NotSet | SetUndefined | SetNull | Set 'a

record CanvasValidationOptions =
  maxElements :: "jsnum setting"
  maxCanvasSize :: "Size setting"
  minCanvasSize :: "Size setting"
  allowedFileTypes :: "string list setting"
  maxFileSize :: "jsnum setting"

definition DEFAULT_VALIDATION_OPTIONS :: CanvasValidationOptions where
  "DEFAULT_VALIDATION_OPTIONS =
     \<lparr>maxElements = Set (Fin 1000),
      maxCanvasSize = Set \<lparr>width = Fin 200, height = Fin 200\<rparr>,
      minCanvasSize = Set \<lparr>width = Fin 1, height = Fin 1\<rparr>,
      allowedFileTypes = Set [''image/png'', ''image/jpeg'', ''image/webp''],
      maxFileSize = Set (Fin (10 * 1024 * 1024))\<rparr>"

text \<open>
  \<open>{ ...defaults, ...options }\<close>: every own property of \<open>options\<close> overrides the
  default, also one whose value is \<open>undefined\<close> or \<open>null\<close>.
\<close>

fun override :: "'a setting \<Rightarrow> 'a setting \<Rightarrow> 'a setting" where
  "override d NotSet = d"
| "override d s = s"

definition spread ::
  "CanvasValidationOptions \<Rightarrow> CanvasValidationOptions \<Rightarrow> CanvasValidationOptions" where
  "spread d options =
     \<lparr>maxElements = override (maxElements d) (maxElements options),
      maxCanvasSize = override (maxCanvasSize d) (maxCanvasSize options),
      minCanvasSize = override (minCanvasSize d) (minCanvasSize options),
      allowedFileTypes = override (allowedFileTypes d) (allowedFileTypes options),
      maxFileSize = override (maxFileSize d) (maxFileSize options)\<rparr>"

text \<open>The call with the second argument left out: \<open>options = {}\<close>.\<close>

definition no_options :: CanvasValidationOptions where
  "no_options =
     \<lparr>maxElements = NotSet, maxCanvasSize = NotSet, minCanvasSize = NotSet,
      allowedFileTypes = NotSet, maxFileSize = NotSet\<rparr>"

text \<open>
  \<open>opts.minCanvasSize!.width\<close>: the non-null assertion is erased at run time, and the
  read throws a TypeError when the option is \<open>undefined\<close> or \<open>null\<close>.
\<close>

fun width_of :: "Size setting \<Rightarrow> jsnum option" where
  "width_of (Set s) = Some (width s)"
| "width_of s = None"

fun height_of :: "Size setting \<Rightarrow> jsnum option" where
  "height_of (Set s) = Some (height s)"
| "height_of s = None"

text \<open>
  \<open>opts.maxElements\<close> as the operand of a comparison, where \<open>undefined\<close> converts to NaN
  and \<open>null\<close> to 0, and in a template literal.
\<close>

fun number_of_setting :: "jsnum setting \<Rightarrow> jsnum" where
  "number_of_setting (Set n) = n"
| "number_of_setting SetNull = Fin 0"
| "number_of_setting s = NaN"

fun string_of_setting :: "(jsnum \<Rightarrow> string) \<Rightarrow> jsnum setting \<Rightarrow> string" where
  "string_of_setting num2str (Set n) = num2str n"
| "string_of_setting num2str SetNull = ''null''"
| "string_of_setting num2str s = ''undefined''"

text \<open>
  Every validator returns \<open>Some\<close> result, or \<open>None\<close> where the JavaScript would throw.
\<close>

definition validatePlant :: "jsval \<Rightarrow> ValidationResult option" where
  \<open>validatePlant plant =
    (if \<not> truthy plant \<or> typeof plant \<noteq> ''object'' then Some (invalid ''Invalid plant data'')
     else do {
       pid \<leftarrow> get plant ''id'';
       if \<not> truthy pid \<or> typeof pid \<noteq> ''string''
       then Some (invalid ''Plant ID is required and must be a string'')
       else do {
         name \<leftarrow> get plant ''name'';
         if \<not> truthy name \<or> typeof name \<noteq> ''string''
         then Some (invalid ''Plant name is required and must be a string'')
         else do {
           len \<leftarrow> get name ''length'';
           if num_gt (numof len) (Fin 100)
           then Some (invalid ''Plant name must be less than 100 characters'')
           else do {
             spacing \<leftarrow> get plant ''spacing'';
             if \<not> truthy spacing \<or> typeof spacing \<noteq> ''string''
             then Some (invalid ''Plant spacing is required'')
             else if \<not> test spacingPattern (strof spacing)
             then Some (invalid
               ''Invalid spacing format. Use formats like "1x1m", "30x30cm", "50cm", or "2m"'')
             else do {
               category \<leftarrow> get plant ''category'';
               if \<not> truthy category \<or> typeof category \<noteq> ''string''
               then Some (invalid ''Plant category is required'')
               else do {
                 color \<leftarrow> get plant ''color'';
                 if \<not> truthy color \<or> typeof color \<noteq> ''string''
                 then Some (invalid ''Plant color is required'')
                 else if \<not> test colorPattern (strof color)
                 then Some (invalid ''Plant color must be a valid hex color (e.g., #FF6B6B)'')
                 else Some valid
               }
             }
           }
         }
       }
     })\<close>

definition validateTerrain :: "jsval \<Rightarrow> ValidationResult option" where
  \<open>validateTerrain terrain =
    (if \<not> truthy terrain \<or> typeof terrain \<noteq> ''object''
     then Some (invalid ''Invalid terrain data'')
     else do {
       tid \<leftarrow> get terrain ''id'';
       if \<not> truthy tid \<or> typeof tid \<noteq> ''string''
       then Some (invalid ''Terrain ID is required and must be a string'')
       else do {
         name \<leftarrow> get terrain ''name'';
         if \<not> truthy name \<or> typeof name \<noteq> ''string''
         then Some (invalid ''Terrain name is required and must be a string'')
         else do {
           len \<leftarrow> get name ''length'';
           if num_gt (numof len) (Fin 100)
           then Some (invalid ''Terrain name must be less than 100 characters'')
           else do {
             category \<leftarrow> get terrain ''category'';
             if \<not> truthy category \<or> typeof category \<noteq> ''string''
             then Some (invalid ''Terrain category is required'')
             else do {
               color \<leftarrow> get terrain ''color'';
               if \<not> truthy color \<or> typeof color \<noteq> ''string''
               then Some (invalid ''Terrain color is required'')
               else if \<not> test colorPattern (strof color)
               then Some (invalid ''Terrain color must be a valid hex color (e.g., #8B4513)'')
               else do {
                 bt \<leftarrow> get terrain ''brushThickness'';
                 if bt \<noteq> JUndefined \<and>
                    (typeof bt \<noteq> ''number'' \<or> num_lt (numof bt) (Fin 1)
                      \<or> num_gt (numof bt) (Fin 100))
                 then Some (invalid ''Brush thickness must be between 1 and 100 pixels'')
                 else Some valid
               }
             }
           }
         }
       }
     })\<close>

text \<open>The double that the literal \<open>0.1\<close> denotes.\<close>

definition tenth :: jsnum where
  "tenth = Fin (3602879701896397 / 36028797018963968)"

definition validateStructure :: "jsval \<Rightarrow> ValidationResult option" where
  \<open>validateStructure structure =
    (if \<not> truthy structure \<or> typeof structure \<noteq> ''object''
     then Some (invalid ''Invalid structure data'')
     else do {
       sid \<leftarrow> get structure ''id'';
       if \<not> truthy sid \<or> typeof sid \<noteq> ''string''
       then Some (invalid ''Structure ID is required and must be a string'')
       else do {
         name \<leftarrow> get structure ''name'';
         if \<not> truthy name \<or> typeof name \<noteq> ''string''
         then Some (invalid ''Structure name is required and must be a string'')
         else do {
           len \<leftarrow> get name ''length'';
           if num_gt (numof len) (Fin 100)
           then Some (invalid ''Structure name must be less than 100 characters'')
           else do {
             category \<leftarrow> get structure ''category'';
             if \<not> truthy category \<or> typeof category \<noteq> ''string''
             then Some (invalid ''Structure category is required'')
             else do {
               size \<leftarrow> get structure ''size'';
               if \<not> truthy size \<or> typeof size \<noteq> ''object''
               then Some (invalid ''Structure size is required'')
               else do {
                 w \<leftarrow> get size ''width'';
                 if typeof w \<noteq> ''number'' \<or> num_lt (numof w) tenth \<or> num_gt (numof w) (Fin 100)
                 then Some (invalid ''Structure width must be between 0.1 and 100 meters'')
                 else do {
                   h \<leftarrow> get size ''height'';
                   if typeof h \<noteq> ''number'' \<or> num_lt (numof h) tenth
                      \<or> num_gt (numof h) (Fin 100)
                   then Some (invalid ''Structure height must be between 0.1 and 100 meters'')
                   else do {
                     color \<leftarrow> get structure ''color'';
                     if \<not> truthy color \<or> typeof color \<noteq> ''string''
                     then Some (invalid ''Structure color is required'')
                     else if \<not> test colorPattern (strof color)
                     then Some (invalid
                       ''Structure color must be a valid hex color (e.g., #696969)'')
                     else Some valid
                   }
                 }
               }
             }
           }
         }
       }
     })\<close>


text \<open>
  A block \<open>if (c) { const r = validateX(v); if (!r.isValid) return r; }\<close> is the
  result \<open>r\<close> of the nested validator when \<open>c\<close> holds and a passing result otherwise,
  followed by the test of \<open>r\<close>.
\<close>

definition validateDrawingElement :: "jsval \<Rightarrow> ValidationResult option" where
  \<open>validateDrawingElement element =
    (if \<not> truthy element \<or> typeof element \<noteq> ''object''
     then Some (invalid ''Invalid element data'')
     else do {
       eid \<leftarrow> get element ''id'';
       if \<not> truthy eid \<or> typeof eid \<noteq> ''number''
       then Some (invalid ''Element ID is required and must be a number'')
       else do {
         ty \<leftarrow> get element ''type'';
         if \<not> truthy ty \<or> typeof ty \<noteq> ''string''
         then Some (invalid ''Element type is required'')
         else let validTypes = [''plant'', ''terrain'', ''rectangle'', ''circle''] in
         if \<not> arr_includes validTypes ty
         then Some (invalid (''Element type must be one of: '' @ join validTypes '', ''))
         else do {
           x \<leftarrow> get element ''x'';
           if typeof x \<noteq> ''number'' \<or> \<not> isFinite (numof x)
           then Some (invalid ''Element x position must be a valid number'')
           else do {
             y \<leftarrow> get element ''y'';
             if typeof y \<noteq> ''number'' \<or> \<not> isFinite (numof y)
             then Some (invalid ''Element y position must be a valid number'')
             else if num_gt (num_abs (numof x)) (Fin 100000)
                     \<or> num_gt (num_abs (numof y)) (Fin 100000)
             then Some (invalid ''Element coordinates are out of reasonable bounds'')
             else do {
               plant \<leftarrow> get element ''plant'';
               plantValidation \<leftarrow>
                 (if ty = JStr ''plant'' \<and> truthy plant then validatePlant plant else Some valid);
               if \<not> isValid plantValidation then Some plantValidation
               else do {
                 terrain \<leftarrow> get element ''terrain'';
                 terrainValidation \<leftarrow>
                   (if ty = JStr ''terrain'' \<and> truthy terrain then validateTerrain terrain
                    else Some valid);
                 if \<not> isValid terrainValidation then Some terrainValidation
                 else do {
                   w \<leftarrow> get element ''width'';
                   h \<leftarrow> get element ''height'';
                   r \<leftarrow> get element ''radius'';
                   let shaped =
                     (ty = JStr ''rectangle'' \<or> ty = JStr ''circle'' \<or> ty = JStr ''terrain'') in
                   if shaped \<and> w \<noteq> JUndefined \<and>
                      (typeof w \<noteq> ''number'' \<or> num_lt (numof w) (Fin 0) \<or> \<not> isFinite (numof w))
                   then Some (invalid ''Element width must be a valid positive number'')
                   else if shaped \<and> h \<noteq> JUndefined \<and>
                      (typeof h \<noteq> ''number'' \<or> num_lt (numof h) (Fin 0) \<or> \<not> isFinite (numof h))
                   then Some (invalid ''Element height must be a valid positive number'')
                   else if shaped \<and> r \<noteq> JUndefined \<and>
                      (typeof r \<noteq> ''number'' \<or> num_lt (numof r) (Fin 0) \<or> \<not> isFinite (numof r))
                   then Some (invalid ''Element radius must be a valid positive number'')
                   else do {
                     rotation \<leftarrow> get element ''rotation'';
                     if rotation \<noteq> JUndefined \<and>
                        (typeof rotation \<noteq> ''number'' \<or> \<not> isFinite (numof rotation))
                     then Some (invalid ''Element rotation must be a valid number'')
                     else Some valid
                   }
                 }
               }
             }
           }
         }
       }
     })\<close>

text \<open>
  The conversion of a number to a string in a template literal is that of the runtime:
  the parameter \<open>num2str\<close>.
\<close>

text \<open>
  In \<open>a < min.width || a > max.width\<close> the second operand is evaluated, and can throw,
  only when the first is false; the message then reads both bounds again.
\<close>

definition validateCanvasSize ::
  "(jsnum \<Rightarrow> string) \<Rightarrow> jsval \<Rightarrow> CanvasValidationOptions \<Rightarrow> ValidationResult option" where
  \<open>validateCanvasSize num2str sz options =
    (let opts = spread DEFAULT_VALIDATION_OPTIONS options in
     if \<not> truthy sz \<or> typeof sz \<noteq> ''object''
     then Some (invalid ''Invalid canvas size data'')
     else do {
       w \<leftarrow> get sz ''width'';
       if typeof w \<noteq> ''number'' \<or> \<not> isFinite (numof w)
       then Some (invalid ''Canvas width must be a valid number'')
       else do {
         h \<leftarrow> get sz ''height'';
         if typeof h \<noteq> ''number'' \<or> \<not> isFinite (numof h)
         then Some (invalid ''Canvas height must be a valid number'')
         else do {
           minWidth \<leftarrow> width_of (minCanvasSize opts);
           widthOut \<leftarrow>
             (if num_lt (numof w) minWidth then Some True
              else do { maxWidth \<leftarrow> width_of (maxCanvasSize opts);
                        Some (num_gt (numof w) maxWidth) });
           if widthOut
           then do {
             maxWidth \<leftarrow> width_of (maxCanvasSize opts);
             Some (invalid (''Canvas width must be between '' @ num2str minWidth @ '' and ''
                     @ num2str maxWidth @ '' meters''))
           }
           else do {
             minHeight \<leftarrow> height_of (minCanvasSize opts);
             heightOut \<leftarrow>
               (if num_lt (numof h) minHeight then Some True
                else do { maxHeight \<leftarrow> height_of (maxCanvasSize opts);
                          Some (num_gt (numof h) maxHeight) });
             if heightOut
             then do {
               maxHeight \<leftarrow> height_of (maxCanvasSize opts);
               Some (invalid (''Canvas height must be between '' @ num2str minHeight
                       @ '' and '' @ num2str maxHeight @ '' meters''))
             }
             else Some valid
           }
         }
       }
     })\<close>

text \<open>An absent \<open>error\<close> in a template literal prints as \<open>undefined\<close>.\<close>

fun str_or_undefined :: "string option \<Rightarrow> string" where
  "str_or_undefined None = ''undefined''"
| "str_or_undefined (Some s) = s"

text \<open>The loop \<open>for (let i = 0; i < elements.length; i++)\<close>, from index \<open>i\<close> on.\<close>

fun validateElements_from ::
  "(jsnum \<Rightarrow> string) \<Rightarrow> nat \<Rightarrow> jsval list \<Rightarrow> ValidationResult option" where
  "validateElements_from num2str i [] = Some valid"
| "validateElements_from num2str i (e # es) =
     do {
       elementValidation \<leftarrow> validateDrawingElement e;
       if \<not> isValid elementValidation
       then Some (invalid (''Element at index '' @ num2str (Fin (real i)) @ '': ''
              @ str_or_undefined (error elementValidation)))
       else validateElements_from num2str (Suc i) es
     }"

fun items :: "jsval \<Rightarrow> jsval list" where
  "items (JArr xs) = xs"
| "items v = []"

definition validateElementsArray ::
  "(jsnum \<Rightarrow> string) \<Rightarrow> jsval \<Rightarrow> CanvasValidationOptions \<Rightarrow> ValidationResult option" where
  \<open>validateElementsArray num2str elements options =
    (let opts = spread DEFAULT_VALIDATION_OPTIONS options in
     if \<not> isArray elements then Some (invalid ''Elements must be an array'')
     else if num_gt (Fin (real (length (items elements)))) (number_of_setting (maxElements opts))
     then Some (invalid (''Maximum '' @ string_of_setting num2str (maxElements opts)
                  @ '' elements allowed''))
     else validateElements_from num2str 0 (items elements))\<close>

definition validateCanvasState ::
  "(jsnum \<Rightarrow> string) \<Rightarrow> jsval \<Rightarrow> jsval \<Rightarrow> CanvasValidationOptions
     \<Rightarrow> ValidationResult option" where
  \<open>validateCanvasState num2str elements canvasSize options =
    do {
      sizeValidation \<leftarrow> validateCanvasSize num2str canvasSize options;
      if \<not> isValid sizeValidation then Some sizeValidation
      else do {
        elementsValidation \<leftarrow> validateElementsArray num2str elements options;
        if \<not> isValid elementsValidation then Some elementsValidation
        else Some valid
      }
    }\<close>


section \<open>JSON texts\<close>

text \<open>
  \<open>JSON.stringify\<close> and \<open>JSON.parse\<close> are built-ins of the runtime. A text is
  represented by what \<open>JSON.parse\<close> makes of it: the value it denotes, or nothing when
  parsing throws a SyntaxError (the empty string is such a text). \<open>JSON.stringify\<close>
  leaves out a property whose value is \<open>undefined\<close>, writes \<open>null\<close> for an
  \<open>undefined\<close> array item and for a number that is not finite, and reproduces
  everything else; \<open>JSON_value\<close> is the value its text denotes.
\<close>

datatype json_text = Parses jsval | Unparseable

fun JSON_value :: "jsval \<Rightarrow> jsval"
  and JSON_props :: "(string \<times> jsval) list \<Rightarrow> (string \<times> jsval) list"
  and JSON_items :: "jsval list \<Rightarrow> jsval list" where
  "JSON_value JUndefined = JNull"
| "JSON_value JNull = JNull"
| "JSON_value (JBool b) = JBool b"
| "JSON_value (JNum n) = (if isFinite n then JNum n else JNull)"
| "JSON_value (JStr s) = JStr s"
| "JSON_value (JArr xs) = JArr (JSON_items xs)"
| "JSON_value (JObj kvs) = JObj (JSON_props kvs)"
| "JSON_props [] = []"
| "JSON_props (kv # kvs) =
     (if snd kv = JUndefined then JSON_props kvs
      else (fst kv, JSON_value (snd kv)) # JSON_props kvs)"
| "JSON_items [] = []"
| "JSON_items (v # vs) = JSON_value v # JSON_items vs"

text \<open>\<open>JSON.stringify(undefined)\<close> is \<open>undefined\<close>, which is no JSON text.\<close>

definition JSON_stringify :: "jsval \<Rightarrow> json_text" where
  "JSON_stringify v = (if v = JUndefined then Unparseable else Parses (JSON_value v))"

text \<open>\<open>JSON.parse\<close>: \<open>None\<close> when it throws.\<close>

fun JSON_parse :: "json_text \<Rightarrow> jsval option" where
  "JSON_parse (Parses v) = Some v"
| "JSON_parse Unparseable = None"

section \<open>Persistence store\<close>

datatype 'a or_null = Absent | Null | Present 'a

fun js_or_null :: "('a \<Rightarrow> jsval) \<Rightarrow> 'a or_null \<Rightarrow> jsval" where
  "js_or_null f Absent = JUndefined"
| "js_or_null f Null = JNull"
| "js_or_null f (Present a) = f a"

record Metadata =
  elementsCount :: jsnum
  totalArea :: "jsnum option"
  projectInfo :: "string option"
  tags :: "string list option"

record ProjectData =
  version :: string
  timestamp :: jsnum
  lastModified :: string
  canvasSize :: Size
  elements :: "DrawingElement list"
  selectedTool :: string
  selectedPlant :: "Plant or_null"
  selectedTerrain :: "Terrain or_null"
  selectedStructure :: "Structure or_null"
  metadata :: Metadata

record ProjectHistoryEntry =
  he_id :: string
  he_name :: string
  he_timestamp :: jsnum
  he_lastModified :: string
  he_canvasSize :: Size
  he_elementsCount :: jsnum
  he_thumbnail :: "string option"
  he_tags :: "string list option"

definition js_strings :: "string list \<Rightarrow> jsval" where
  "js_strings xs = JArr (map JStr xs)"

definition js_Metadata :: "Metadata \<Rightarrow> jsval" where
  "js_Metadata m = JObj
     [(''elementsCount'', JNum (elementsCount m)),
      (''totalArea'', js_opt JNum (totalArea m)),
      (''projectInfo'', js_opt JStr (projectInfo m)),
      (''tags'', js_opt js_strings (tags m))]"

definition js_ProjectData :: "ProjectData \<Rightarrow> jsval" where
  "js_ProjectData p = JObj
     [(''version'', JStr (version p)),
      (''timestamp'', JNum (timestamp p)),
      (''lastModified'', JStr (lastModified p)),
      (''canvasSize'', js_Size (canvasSize p)),
      (''elements'', JArr (map js_DrawingElement (elements p))),
      (''selectedTool'', JStr (selectedTool p)),
      (''selectedPlant'', js_or_null js_Plant (selectedPlant p)),
      (''selectedTerrain'', js_or_null js_Terrain (selectedTerrain p)),
      (''selectedStructure'', js_or_null js_Structure (selectedStructure p)),
      (''metadata'', js_Metadata (metadata p))]"

definition js_HistoryEntry :: "ProjectHistoryEntry \<Rightarrow> jsval" where
  "js_HistoryEntry e = JObj
     [(''id'', JStr (he_id e)),
      (''name'', JStr (he_name e)),
      (''timestamp'', JNum (he_timestamp e)),
      (''lastModified'', JStr (he_lastModified e)),
      (''canvasSize'', js_Size (he_canvasSize e)),
      (''elementsCount'', JNum (he_elementsCount e)),
      (''thumbnail'', js_opt JStr (he_thumbnail e)),
      (''tags'', js_opt js_strings (he_tags e))]"

text \<open>
  \<open>localStorage\<close>: a map from keys to texts. What the code takes from its environment
  is a parameter: the clock, the formatting of dates and numbers, the characters of
  \<open>JSON.stringify\<close>, and whether \<open>setItem\<close> goes through (it throws when the quota is
  exceeded or the storage is unavailable).
\<close>

type_synonym storage = "string \<Rightarrow> json_text option"

record Runtime =
  Date_now :: jsnum
  nowISOString :: string
  nowLocaleDate :: string
  toLocaleDateString :: "jsnum \<Rightarrow> string"
  toLocaleTimeString :: "jsnum \<Rightarrow> string"
  numToString :: "jsnum \<Rightarrow> string"
  stringify_chars :: "jsval \<Rightarrow> string"
  setItem_ok :: "storage \<Rightarrow> string \<Rightarrow> json_text \<Rightarrow> bool"

definition CURRENT_PROJECT :: string where
  "CURRENT_PROJECT = ''agroecologia-current-project''"

definition PROJECT_HISTORY :: string where
  "PROJECT_HISTORY = ''agroecolia-project-history''"

definition LAST_SAVE :: string where
  "LAST_SAVE = ''agroecologia-last-save''"

text \<open>\<open>localStorage.setItem(k, v)\<close>: the new storage, or \<open>None\<close> when it throws.\<close>

definition setItem :: "Runtime \<Rightarrow> string \<Rightarrow> json_text \<Rightarrow> storage \<Rightarrow> storage option" where
  "setItem rt k v st = (if setItem_ok rt st k v then Some (st(k \<mapsto> v)) else None)"

text \<open>The loop \<open>for (const field of requiredFields) if (!(field in v)) return false\<close>.\<close>

fun all_in :: "string list \<Rightarrow> jsval \<Rightarrow> bool option" where
  "all_in [] v = Some True"
| "all_in (k # ks) v =
     do { b \<leftarrow> has_in k v; if \<not> b then Some False else all_in ks v }"

definition validateProjectData :: "jsval \<Rightarrow> bool option" where
  \<open>validateProjectData project =
    (if \<not> truthy project \<or> typeof project \<noteq> ''object'' then Some False
     else do {
       present \<leftarrow>
         all_in [''version'', ''timestamp'', ''canvasSize'', ''elements'', ''selectedTool''] project;
       if \<not> present then Some False
       else do {
         cs \<leftarrow> get project ''canvasSize'';
         if \<not> truthy cs \<or> typeof cs \<noteq> ''object'' then Some False
         else do {
           w \<leftarrow> get cs ''width'';
           h \<leftarrow> get cs ''height'';
           if typeof w \<noteq> ''number'' \<or> typeof h \<noteq> ''number'' then Some False
           else do {
             els \<leftarrow> get project ''elements'';
             if \<not> isArray els then Some False
             else do {
               ts \<leftarrow> get project ''timestamp'';
               if typeof ts \<noteq> ''number'' \<or> num_le (numof ts) (Fin 0) then Some False
               else Some True
             }
           }
         }
       }
     })\<close>

text \<open>\<open>getCurrentProject\<close>: \<open>None\<close> is the result \<open>null\<close>.\<close>

definition getCurrentProject :: "storage \<Rightarrow> jsval option" where
  "getCurrentProject st =
     (case st CURRENT_PROJECT of
        None \<Rightarrow> None
      | Some projectJson \<Rightarrow>
          (case JSON_parse projectJson of
             None \<Rightarrow> None
           | Some project \<Rightarrow>
               (case validateProjectData project of
                  Some True \<Rightarrow> Some project
                | _ \<Rightarrow> None)))"

text \<open>
  \<open>generateProjectId\<close>. Each round of the loop ends with \<open>hash & hash\<close>, which brings
  the sum back to a signed 32-bit integer: the arithmetic of a 32-bit word. A call that
  passes no argument binds \<open>project\<close> to \<open>undefined\<close> (here \<open>None\<close>), and the first
  property read throws.
\<close>

definition hash_step :: "32 word \<Rightarrow> char \<Rightarrow> 32 word" where
  "hash_step hash c = (push_bit 5 hash - hash) + of_nat (of_char c)"

definition digit36 :: "nat \<Rightarrow> char" where
  "digit36 d = ''0123456789abcdefghijklmnopqrstuvwxyz'' ! d"

function toString36 :: "nat \<Rightarrow> string" where
  "toString36 n = (if n < 36 then [digit36 n] else toString36 (n div 36) @ [digit36 (n mod 36)])"
  by pat_completeness auto
termination
  by (relation "measure id") auto

definition generateProjectId :: "Runtime \<Rightarrow> ProjectData option \<Rightarrow> string option" where
  "generateProjectId rt project =
     (case project of
        None \<Rightarrow> None
      | Some p \<Rightarrow>
          (let dataString = stringify_chars rt (JObj
                 [(''timestamp'', JNum (timestamp p)),
                  (''canvasSize'', js_Size (canvasSize p)),
                  (''elementsCount'', JNum (Fin (real (length (elements p)))))]);
               hash = foldl hash_step 0 dataString
           in Some (toString36 (nat \<bar>sint hash\<bar>))))"

definition generateProjectName :: "Runtime \<Rightarrow> ProjectData \<Rightarrow> string" where
  "generateProjectName rt project =
     ''Projeto '' @ toLocaleDateString rt (timestamp project) @ '' ''
       @ toLocaleTimeString rt (timestamp project)"

definition getProjectHistory :: "storage \<Rightarrow> jsval" where
  "getProjectHistory st =
     (case st PROJECT_HISTORY of
        None \<Rightarrow> JArr []
      | Some historyJson \<Rightarrow>
          (case JSON_parse historyJson of None \<Rightarrow> JArr [] | Some history \<Rightarrow> history))"

text \<open>
  \<open>addToProjectHistory\<close> catches whatever its body throws and returns; the storage is
  then as it was. The first field of the entry is \<open>id: generateProjectId()\<close>, a call
  without an argument. \<open>history.unshift\<close> throws when the stored history is not an array.
\<close>

definition addToProjectHistory :: "Runtime \<Rightarrow> ProjectData \<Rightarrow> storage \<Rightarrow> storage" where
  "addToProjectHistory rt project st =
     (let history = getProjectHistory st in
      case generateProjectId rt None of
        None \<Rightarrow> st
      | Some pid \<Rightarrow>
          (let historyEntry =
                 \<lparr>he_id = pid,
                  he_name = generateProjectName rt project,
                  he_timestamp = timestamp project,
                  he_lastModified = lastModified project,
                  he_canvasSize = canvasSize project,
                  he_elementsCount = Fin (real (length (elements project))),
                  he_thumbnail = None,
                  he_tags = tags (metadata project)\<rparr>
           in case history of
                JArr entries \<Rightarrow>
                  (let unshifted = js_HistoryEntry historyEntry # entries;
                       spliced = (if length unshifted > 50 then take 50 unshifted else unshifted)
                   in case setItem rt PROJECT_HISTORY (JSON_stringify (JArr spliced)) st of
                        None \<Rightarrow> st
                      | Some st' \<Rightarrow> st')
              | _ \<Rightarrow> st))"

text \<open>
  \<open>saveCurrentProject\<close> returns its boolean, and leaves behind the project object as it
  has mutated it and the storage as it has written it: the three components of the
  result. \<open>Date.now().toString()\<close> is the text of a number.
\<close>

definition saveCurrentProject ::
  "Runtime \<Rightarrow> ProjectData \<Rightarrow> storage \<Rightarrow> bool \<times> ProjectData \<times> storage" where
  "saveCurrentProject rt project st =
     (case validateProjectData (js_ProjectData project) of
        None \<Rightarrow> (False, project, st)
      | Some ok \<Rightarrow>
          if \<not> ok then (False, project, st)
          else
            (let project1 = project\<lparr>lastModified := nowISOString rt\<rparr>;
                 project2 = project1\<lparr>metadata := (metadata project1)
                   \<lparr>elementsCount := Fin (real (length (elements project1)))\<rparr>\<rparr>
             in case setItem rt CURRENT_PROJECT (JSON_stringify (js_ProjectData project2)) st of
                  None \<Rightarrow> (False, project2, st)
                | Some st1 \<Rightarrow>
                    (case setItem rt LAST_SAVE (Parses (JNum (Date_now rt))) st1 of
                       None \<Rightarrow> (False, project2, st1)
                     | Some st2 \<Rightarrow> (True, project2, addToProjectHistory rt project2 st2))))"

subsection \<open>The save on any value\<close>

text \<open>
  The parameter type of \<open>saveCurrentProject\<close> is erased at run time: the caller can pass
  any value, and the structural check is what stands between that value and the storage.
  The same code is therefore also read on values. An assignment \<open>o.k = v\<close> sets the
  property of an object. It throws a TypeError on \<open>undefined\<close> and \<open>null\<close>, and, the
  code being module code and so strict, on a boolean, a number and a string. On an array
  it adds a named property, which is no part of the array as a value and which
  \<open>JSON.stringify\<close> leaves out.
\<close>

fun put :: "string \<Rightarrow> jsval \<Rightarrow> (string \<times> jsval) list \<Rightarrow> (string \<times> jsval) list" where
  "put k v [] = [(k, v)]"
| "put k v (kv # kvs) = (if fst kv = k then (k, v) # kvs else kv # put k v kvs)"

fun assign :: "jsval \<Rightarrow> string \<Rightarrow> jsval \<Rightarrow> jsval option" where
  "assign (JObj kvs) k v = Some (JObj (put k v kvs))"
| "assign (JArr xs) k v = Some (JArr xs)"
| "assign other k v = None"

text \<open>
  \<open>addToProjectHistory\<close> on a value; as on a typed project, the entry begins with
  \<open>id: generateProjectId()\<close>. The timestamp it formats has passed the structural check.
\<close>

definition addToProjectHistory_untyped :: "Runtime \<Rightarrow> jsval \<Rightarrow> storage \<Rightarrow> storage" where
  "addToProjectHistory_untyped rt project st =
     (let history = getProjectHistory st in
      case generateProjectId rt None of
        None \<Rightarrow> st
      | Some pid \<Rightarrow>
          (case do {
                  ts \<leftarrow> get project ''timestamp'';
                  modified \<leftarrow> get project ''lastModified'';
                  cs \<leftarrow> get project ''canvasSize'';
                  els \<leftarrow> get project ''elements'';
                  n \<leftarrow> get els ''length'';
                  meta \<leftarrow> get project ''metadata'';
                  tgs \<leftarrow> get meta ''tags'';
                  Some (JObj
                    [(''id'', JStr pid),
                     (''name'', JStr (''Projeto '' @ toLocaleDateString rt (numof ts) @ '' ''
                                       @ toLocaleTimeString rt (numof ts))),
                     (''timestamp'', ts),
                     (''lastModified'', modified),
                     (''canvasSize'', cs),
                     (''elementsCount'', n),
                     (''tags'', tgs)])
                } of
             None \<Rightarrow> st
           | Some historyEntry \<Rightarrow>
               (case history of
                  JArr entries \<Rightarrow>
                    (let unshifted = historyEntry # entries;
                         spliced = (if length unshifted > 50 then take 50 unshifted
                                    else unshifted)
                     in case setItem rt PROJECT_HISTORY (JSON_stringify (JArr spliced)) st of
                          None \<Rightarrow> st
                        | Some st' \<Rightarrow> st')
                | _ \<Rightarrow> st)))"

text \<open>
  \<open>saveCurrentProject\<close> on a value. Whatever is thrown inside the \<open>try\<close> ends in the
  \<open>catch\<close>, which returns false; the object and the storage are then as the code has
  left them at that point.
\<close>

definition saveCurrentProject_untyped ::
  "Runtime \<Rightarrow> jsval \<Rightarrow> storage \<Rightarrow> bool \<times> jsval \<times> storage" where
  "saveCurrentProject_untyped rt project st =
     (case validateProjectData project of
        None \<Rightarrow> (False, project, st)
      | Some ok \<Rightarrow>
          if \<not> ok then (False, project, st)
          else
            (case assign project ''lastModified'' (JStr (nowISOString rt)) of
               None \<Rightarrow> (False, project, st)
             | Some project1 \<Rightarrow>
                 (case do {
                         meta \<leftarrow> get project1 ''metadata'';
                         els \<leftarrow> get project1 ''elements'';
                         n \<leftarrow> get els ''length'';
                         meta' \<leftarrow> assign meta ''elementsCount'' n;
                         assign project1 ''metadata'' meta'
                       } of
                    None \<Rightarrow> (False, project1, st)
                  | Some project2 \<Rightarrow>
                      (case setItem rt CURRENT_PROJECT (JSON_stringify project2) st of
                         None \<Rightarrow> (False, project2, st)
                       | Some st1 \<Rightarrow>
                           (case setItem rt LAST_SAVE (Parses (JNum (Date_now rt))) st1 of
                              None \<Rightarrow> (False, project2, st1)
                            | Some st2 \<Rightarrow>
                                (True, project2,
                                 addToProjectHistory_untyped rt project2 st2))))))"

subsection \<open>Deleting an entry\<close>

text \<open>
  \<open>history.filter(entry => entry.id !== projectId)\<close>: \<open>None\<close> when reading \<open>id\<close> of an
  entry throws.
\<close>

fun filter_other_ids :: "string \<Rightarrow> jsval list \<Rightarrow> jsval list option" where
  "filter_other_ids projectId [] = Some []"
| "filter_other_ids projectId (entry # entries) =
     do {
       i \<leftarrow> get entry ''id'';
       kept \<leftarrow> filter_other_ids projectId entries;
       Some (if i \<noteq> JStr projectId then entry # kept else kept)
     }"

definition deleteProjectFromHistory :: "Runtime \<Rightarrow> string \<Rightarrow> storage \<Rightarrow> bool \<times> storage" where
  "deleteProjectFromHistory rt projectId st =
     (case getProjectHistory st of
        JArr history \<Rightarrow>
          (case filter_other_ids projectId history of
             None \<Rightarrow> (False, st)
           | Some filteredHistory \<Rightarrow>
               if length filteredHistory = length history then (False, st)
               else
                 (case setItem rt PROJECT_HISTORY (JSON_stringify (JArr filteredHistory)) st of
                    None \<Rightarrow> (False, st)
                  | Some st' \<Rightarrow> (True, st')))
      | _ \<Rightarrow> (False, st))"

section \<open>Export and import\<close>

text \<open>The object literal that \<open>createExportData\<close> maps an element to.\<close>

definition exportElement :: "DrawingElement \<Rightarrow> jsval" where
  "exportElement el = JObj
     [(''id'', JNum (el_id el)),
      (''type'', JStr (type_name (el_type el))),
      (''x'', JNum (el_x el)),
      (''y'', JNum (el_y el)),
      (''width'', js_opt JNum (el_width el)),
      (''height'', js_opt JNum (el_height el)),
      (''radius'', js_opt JNum (el_radius el)),
      (''rotation'', js_opt JNum (el_rotation el)),
      (''plant'', js_opt js_Plant (el_plant el)),
      (''terrain'', js_opt js_Terrain (el_terrain el)),
      (''structure'', js_opt js_Structure (el_structure el)),
      (''realWorldWidth'', js_opt JNum (el_realWorldWidth el)),
      (''realWorldHeight'', js_opt JNum (el_realWorldHeight el)),
      (''brushType'', js_opt JStr (el_brushType el)),
      (''texture'', js_opt JStr (el_texture el)),
      (''pathPoints'', js_opt (\<lambda>ps. JArr (map js_Point ps)) (el_pathPoints el)),
      (''selectedBrushMode'', js_opt JStr (el_selectedBrushMode el)),
      (''brushThickness'', js_opt JNum (el_brushThickness el))]"

text \<open>\<open>elements.filter(el => p(el)).length\<close>, a number.\<close>

definition count_where :: "('a \<Rightarrow> bool) \<Rightarrow> 'a list \<Rightarrow> jsval" where
  "count_where p xs = JNum (Fin (real (length (filter p xs))))"

text \<open>
  \<open>projectName || d\<close> is \<open>d\<close> when the name is left out or empty. The code unit 243 is
  the accented o of the default name.
\<close>

definition createExportData ::
  "Runtime \<Rightarrow> DrawingElement list \<Rightarrow> Size \<Rightarrow> string option \<Rightarrow> jsval" where
  "createExportData rt els cs projectName =
     (let categories = JObj
            [(''plants'', count_where (\<lambda>el. el_type el = TPlant) els),
             (''terrain'', count_where (\<lambda>el. el_type el = TTerrain) els),
             (''structures'', count_where (\<lambda>el. el_type el = TStructure) els),
             (''shapes'',
                count_where (\<lambda>el. el_type el = TRectangle \<or> el_type el = TCircle) els)];
          exportElements = JArr (map exportElement els)
      in JObj
        [(''version'', JStr ''1.0''),
         (''timestamp'', JNum (Date_now rt)),
         (''projectInfo'', JObj
            [(''name'', JStr
                (case projectName of
                   None \<Rightarrow> ''Projeto Agroecol'' @ [char_of (243 :: nat)] @ ''gico '' @ nowLocaleDate rt
                 | Some n \<Rightarrow>
                     if n = [] then ''Projeto Agroecol'' @ [char_of (243 :: nat)] @ ''gico ''
                                      @ nowLocaleDate rt
                     else n)),
             (''description'', JStr
                (''Projeto com '' @ numToString rt (Fin (real (length els)))
                   @ '' elementos em '' @ [char_of (225 :: nat)] @ ''rea de ''
                   @ numToString rt (width cs) @ ''x'' @ numToString rt (height cs)
                   @ '' metros'')),
             (''canvasSize'', js_Size cs),
             (''totalElements'', JNum (Fin (real (length els)))),
             (''categories'', categories)]),
         (''elements'', exportElements),
         (''metadata'', JObj
            [(''exportDate'', JStr (nowISOString rt)),
             (''exportedBy'', JStr ''Agroecologia Desenhada v1.0''),
             (''coordinates'', JObj
                [(''system'', JStr ''meters''),
                 (''origin'', JObj [(''x'', JNum (Fin 0)), (''y'', JNum (Fin 0))])])])])"

definition validateExportElement :: "jsval \<Rightarrow> bool option" where
  \<open>validateExportElement element =
    (if \<not> truthy element \<or> typeof element \<noteq> ''object'' then Some False
     else do {
       present \<leftarrow> all_in [''id'', ''type'', ''x'', ''y''] element;
       if \<not> present then Some False
       else do {
         ty \<leftarrow> get element ''type'';
         if \<not> arr_includes [''plant'', ''terrain'', ''structure'', ''rectangle'', ''circle''] ty
         then Some False
         else do {
           x \<leftarrow> get element ''x'';
           y \<leftarrow> get element ''y'';
           if typeof x \<noteq> ''number'' \<or> typeof y \<noteq> ''number'' then Some False
           else do {
             radius \<leftarrow> get element ''radius'';
             if ty = JStr ''circle'' \<and> radius \<noteq> JUndefined \<and>
                (typeof radius \<noteq> ''number'' \<or> num_lt (numof radius) (Fin 0))
             then Some False
             else do {
               w \<leftarrow> get element ''width'';
               h \<leftarrow> get element ''height'';
               if (ty = JStr ''rectangle'' \<or> ty = JStr ''terrain'') \<and>
                  (w \<noteq> JUndefined \<or> h \<noteq> JUndefined) \<and>
                  (typeof w \<noteq> ''number'' \<or> num_lt (numof w) (Fin 0) \<or>
                   typeof h \<noteq> ''number'' \<or> num_lt (numof h) (Fin 0))
               then Some False
               else Some True
             }
           }
         }
       }
     })\<close>

text \<open>The loop \<open>for (const element of data.elements)\<close>.\<close>

fun all_export_elements :: "jsval list \<Rightarrow> bool option" where
  "all_export_elements [] = Some True"
| "all_export_elements (element # rest) =
     do {
       ok \<leftarrow> validateExportElement element;
       if \<not> ok then Some False else all_export_elements rest
     }"

definition validateExportData :: "jsval \<Rightarrow> bool option" where
  \<open>validateExportData data =
    (if \<not> truthy data \<or> typeof data \<noteq> ''object'' then Some False
     else do {
       present \<leftarrow>
         all_in [''version'', ''timestamp'', ''projectInfo'', ''elements'', ''metadata''] data;
       if \<not> present then Some False
       else do {
         info \<leftarrow> get data ''projectInfo'';
         cs \<leftarrow> get info ''canvasSize'';
         if \<not> truthy cs \<or> typeof cs \<noteq> ''object'' then Some False
         else do {
           els \<leftarrow> get data ''elements'';
           if \<not> isArray els then Some False
           else all_export_elements (items els)
         }
       }
     })\<close>

text \<open>\<open>importProjectFromJSON\<close>: \<open>None\<close> is the result \<open>null\<close>; an exception is caught.\<close>

definition importProjectFromJSON :: "json_text \<Rightarrow> jsval option" where
  "importProjectFromJSON jsonData =
     (case JSON_parse jsonData of
        None \<Rightarrow> None
      | Some data \<Rightarrow>
          (case validateExportData data of
             Some True \<Rightarrow> Some data
           | _ \<Rightarrow> None))"

section \<open>Project statistics\<close>

text \<open>
  Arithmetic. A sum, a product or a quotient of finite numbers is the exact result
  rounded to a double: to the nearest one, to the one with the even significand when two
  are equally near, and to an infinity when the rounded result is beyond the largest
  double. A double has a significand of 53 bits and an exponent of at least -1022. The
  two zeros are one value here; the code divides by 100, by 2 and by a positive count
  only, where the sign of a zero makes no difference.
\<close>

definition round_half_even :: "real \<Rightarrow> int" where
  "round_half_even q =
     (let f = \<lfloor>q\<rfloor>; d = q - of_int f in
      if d < 1 / 2 then f else if 1 / 2 < d then f + 1 else if even f then f else f + 1)"

definition round_double :: "real \<Rightarrow> jsnum" where
  "round_double x =
     (if x = 0 then Fin 0
      else let e = max \<lfloor>log 2 \<bar>x\<bar>\<rfloor> (- 1022);
               ulp = 2 powi (e - 52);
               y = of_int (round_half_even (\<bar>x\<bar> / ulp)) * ulp
           in if 2 ^ 1024 \<le> y then (if 0 < x then PosInf else NegInf)
              else Fin (sgn x * y))"

fun num_add :: "jsnum \<Rightarrow> jsnum \<Rightarrow> jsnum" where
  "num_add NaN b = NaN"
| "num_add a NaN = NaN"
| "num_add (Fin a) (Fin b) = round_double (a + b)"
| "num_add PosInf NegInf = NaN"
| "num_add NegInf PosInf = NaN"
| "num_add (Fin a) b = b"
| "num_add a b = a"

fun num_sign :: "jsnum \<Rightarrow> real" where
  "num_sign (Fin a) = sgn a"
| "num_sign PosInf = 1"
| "num_sign NegInf = - 1"
| "num_sign NaN = 0"

fun num_mul :: "jsnum \<Rightarrow> jsnum \<Rightarrow> jsnum" where
  "num_mul NaN b = NaN"
| "num_mul a NaN = NaN"
| "num_mul (Fin a) (Fin b) = round_double (a * b)"
| "num_mul a b =
     (if num_sign a * num_sign b = 0 then NaN
      else if num_sign a * num_sign b > 0 then PosInf else NegInf)"

text \<open>Division by a positive finite number.\<close>

fun num_div_pos :: "jsnum \<Rightarrow> real \<Rightarrow> jsnum" where
  "num_div_pos (Fin a) d = round_double (a / d)"
| "num_div_pos n d = n"

text \<open>
  \<open>spacing.match(/(\d+(?:\.\d+)?)x(\d+(?:\.\d+)?)(cm|m)/)\<close>: the three groups of the
  leftmost match. At a given start the greedy reading of each number is the only one
  that can be followed by \<open>x\<close>, respectively by the unit, since a shorter reading is
  followed by a digit or by the point.
\<close>

definition is_digit :: "char \<Rightarrow> bool" where
  "is_digit c = (c \<in> set ''0123456789'')"

definition scan_decimal :: "string \<Rightarrow> (string \<times> string) option" where
  "scan_decimal s =
     (let ds = takeWhile is_digit s; r = dropWhile is_digit s in
      if ds = [] then None
      else case r of
             c # r' \<Rightarrow>
               if c = CHR ''.'' \<and> takeWhile is_digit r' \<noteq> []
               then Some (ds @ [c] @ takeWhile is_digit r', dropWhile is_digit r')
               else Some (ds, r)
           | [] \<Rightarrow> Some (ds, r))"

fun starts_with :: "string \<Rightarrow> string \<Rightarrow> bool" where
  "starts_with [] s = True"
| "starts_with (p # ps) [] = False"
| "starts_with (p # ps) (c # cs) = (p = c \<and> starts_with ps cs)"

definition match_here :: "string \<Rightarrow> (string \<times> string \<times> string) option" where
  "match_here s =
     (case scan_decimal s of
        None \<Rightarrow> None
      | Some (g1, r1) \<Rightarrow>
          (case r1 of
             [] \<Rightarrow> None
           | c # r2 \<Rightarrow>
               if c \<noteq> CHR ''x'' then None
               else (case scan_decimal r2 of
                       None \<Rightarrow> None
                     | Some (g2, r3) \<Rightarrow>
                         if starts_with ''cm'' r3 then Some (g1, g2, ''cm'')
                         else if starts_with ''m'' r3 then Some (g1, g2, ''m'')
                         else None)))"

fun spacing_match :: "string \<Rightarrow> (string \<times> string \<times> string) option" where
  "spacing_match [] = None"
| "spacing_match (c # cs) =
     (case match_here (c # cs) of Some m \<Rightarrow> Some m | None \<Rightarrow> spacing_match cs)"

text \<open>
  \<open>parseFloat\<close> on the text of a group (digits, or digits, a point and digits): the
  double nearest to the decimal number.
\<close>

definition digits_value :: "string \<Rightarrow> nat" where
  "digits_value ds = foldl (\<lambda>n c. 10 * n + (of_char c - of_char CHR ''0'')) 0 ds"

definition parseFloat :: "string \<Rightarrow> jsnum" where
  "parseFloat s =
     (let ds = takeWhile is_digit s; r = dropWhile is_digit s in
      case r of
        [] \<Rightarrow> round_double (real (digits_value ds))
      | c # fs \<Rightarrow>
          round_double (real (digits_value ds) + real (digits_value fs) / 10 ^ length fs))"

record Statistics =
  st_total :: nat
  st_plants :: nat
  st_terrain :: nat
  st_structures :: nat
  st_shapes :: nat
  st_selected :: nat
  st_totalArea :: jsnum
  st_averageSpacing :: jsnum

text \<open>One round of the loop \<open>for (const element of elements)\<close>.\<close>

definition count_type :: "DrawingElement \<Rightarrow> Statistics \<Rightarrow> Statistics" where
  "count_type element stats =
     (case el_type element of
        TPlant \<Rightarrow> stats\<lparr>st_plants := st_plants stats + 1\<rparr>
      | TTerrain \<Rightarrow>
          (let stats1 = stats\<lparr>st_terrain := st_terrain stats + 1\<rparr> in
           if truthy (js_opt JNum (el_realWorldWidth element))
              \<and> truthy (js_opt JNum (el_realWorldHeight element))
           then stats1\<lparr>st_totalArea := num_add (st_totalArea stats1)
                  (num_mul (numof (js_opt JNum (el_realWorldWidth element)))
                           (numof (js_opt JNum (el_realWorldHeight element))))\<rparr>
           else stats1)
      | TStructure \<Rightarrow> stats\<lparr>st_structures := st_structures stats + 1\<rparr>
      | TRectangle \<Rightarrow> stats\<lparr>st_shapes := st_shapes stats + 1\<rparr>
      | TCircle \<Rightarrow> stats\<lparr>st_shapes := st_shapes stats + 1\<rparr>)"

definition count_selected :: "DrawingElement \<Rightarrow> Statistics \<Rightarrow> Statistics" where
  "count_selected element stats =
     (if el_selected element = Some True then stats\<lparr>st_selected := st_selected stats + 1\<rparr>
      else stats)"

definition add_spacing :: "DrawingElement \<Rightarrow> Statistics \<Rightarrow> Statistics" where
  "add_spacing element stats =
     (case el_plant element of
        None \<Rightarrow> stats
      | Some plant \<Rightarrow>
          if plant_spacing plant = [] then stats
          else (case spacing_match (plant_spacing plant) of
                  None \<Rightarrow> stats
                | Some (g1, g2, unit) \<Rightarrow>
                    (let w = parseFloat g1;
                         h = parseFloat g2;
                         metersWidth = (if unit = ''cm'' then num_div_pos w 100 else w);
                         metersHeight = (if unit = ''cm'' then num_div_pos h 100 else h)
                     in stats\<lparr>st_averageSpacing := num_add (st_averageSpacing stats)
                          (num_div_pos (num_add metersWidth metersHeight) 2)\<rparr>)))"

definition calculateProjectStatistics :: "DrawingElement list \<Rightarrow> Statistics" where
  "calculateProjectStatistics els =
     (let stats0 = \<lparr>st_total = length els, st_plants = 0, st_terrain = 0, st_structures = 0,
                     st_shapes = 0, st_selected = 0, st_totalArea = Fin 0,
                     st_averageSpacing = Fin 0\<rparr>;
          stats = foldl (\<lambda>stats element.
                    add_spacing element (count_selected element (count_type element stats)))
                    stats0 els
      in if st_plants stats > 0
         then stats\<lparr>st_averageSpacing :=
                num_div_pos (st_averageSpacing stats) (real (st_plants stats))\<rparr>
         else stats)"

section \<open>Notions used in the statements\<close>

text \<open>
  A validator has reported when it has returned a result (it did not throw) and the
  result either passes or carries an error message that says something; it has rejected
  when the result fails and carries such a message.
\<close>

fun described :: "string option \<Rightarrow> bool" where
  "described None = False"
| "described (Some msg) = (msg \<noteq> [])"

definition reported :: "ValidationResult option \<Rightarrow> bool" where
  "reported res = (case res of None \<Rightarrow> False | Some r \<Rightarrow> isValid r \<or> described (error r))"

definition rejected :: "ValidationResult option \<Rightarrow> bool" where
  "rejected res = (case res of None \<Rightarrow> False | Some r \<Rightarrow> \<not> isValid r \<and> described (error r))"

text \<open>
  Malformed inputs. A value is no object when it is \<open>null\<close>, \<open>undefined\<close>, a boolean, a
  number or a string. An object lacks a field of a type when the field is missing or
  holds a value of another type; an optional field is mistyped when it is there with a
  value of another type.
\<close>

definition no_object :: "jsval \<Rightarrow> bool" where
  "no_object v = (\<not> truthy v \<or> typeof v \<noteq> ''object'')"

definition field :: "jsval \<Rightarrow> string \<Rightarrow> jsval" where
  "field v k = (case get v k of None \<Rightarrow> JUndefined | Some x \<Rightarrow> x)"

definition field_type :: "jsval \<Rightarrow> string \<Rightarrow> string" where
  "field_type v k = typeof (field v k)"

definition lacks :: "jsval \<Rightarrow> string \<Rightarrow> string list \<Rightarrow> bool" where
  "lacks v ty ks = list_ex (\<lambda>k. field_type v k \<noteq> ty) ks"

definition mistyped :: "jsval \<Rightarrow> string \<Rightarrow> string \<Rightarrow> bool" where
  "mistyped v ty k = (field v k \<noteq> JUndefined \<and> field_type v k \<noteq> ty)"

text \<open>
  What each validator checks, field by field. The element validator checks the embedded
  plant of a plant and the embedded terrain of a terrain, the dimensions of a rectangle,
  a circle and a terrain, and the rotation; it does not look at the dimensions of a
  plant, nor at an embedded structure.
\<close>

definition malformed_plant :: "jsval \<Rightarrow> bool" where
  "malformed_plant v =
     (no_object v \<or> lacks v ''string'' [''id'', ''name'', ''spacing'', ''category'', ''color''])"

definition malformed_terrain :: "jsval \<Rightarrow> bool" where
  "malformed_terrain v =
     (no_object v \<or> lacks v ''string'' [''id'', ''name'', ''category'', ''color'']
      \<or> mistyped v ''number'' ''brushThickness'')"

definition malformed_structure :: "jsval \<Rightarrow> bool" where
  "malformed_structure v =
     (no_object v \<or> lacks v ''string'' [''id'', ''name'', ''category'', ''color'']
      \<or> no_object (field v ''size'')
      \<or> lacks (field v ''size'') ''number'' [''width'', ''height''])"

definition malformed_element :: "jsval \<Rightarrow> bool" where
  "malformed_element v =
     (no_object v \<or> lacks v ''number'' [''id'', ''x'', ''y''] \<or> lacks v ''string'' [''type'']
      \<or> (field v ''type'' = JStr ''plant'' \<and> truthy (field v ''plant'')
            \<and> rejected (validatePlant (field v ''plant'')))
      \<or> (field v ''type'' = JStr ''terrain'' \<and> truthy (field v ''terrain'')
            \<and> rejected (validateTerrain (field v ''terrain'')))
      \<or> (field v ''type'' \<in> {JStr ''rectangle'', JStr ''circle'', JStr ''terrain''}
            \<and> list_ex (mistyped v ''number'') [''width'', ''height'', ''radius''])
      \<or> mistyped v ''number'' ''rotation'')"

definition malformed_size :: "jsval \<Rightarrow> bool" where
  "malformed_size v = (no_object v \<or> lacks v ''number'' [''width'', ''height''])"

definition malformed_elements :: "jsval \<Rightarrow> bool" where
  "malformed_elements v =
     (\<not> isArray v \<or> list_ex (\<lambda>e. rejected (validateDrawingElement e)) (items v))"

text \<open>
  The options under which \<open>validateCanvasSize\<close> can read its bounds: the smallest and
  the largest size are each left out or given as a size.
\<close>

fun given :: "'a setting \<Rightarrow> bool" where
  "given NotSet = True"
| "given (Set a) = True"
| "given s = False"

definition sizes_given :: "CanvasValidationOptions \<Rightarrow> bool" where
  "sizes_given options = (given (minCanvasSize options) \<and> given (maxCanvasSize options))"

text \<open>
  The project as a save leaves it: the time of the save as \<open>lastModified\<close> and the
  number of the elements as \<open>metadata.elementsCount\<close>.
\<close>

definition as_saved :: "Runtime \<Rightarrow> ProjectData \<Rightarrow> ProjectData" where
  "as_saved rt p =
     p\<lparr>lastModified := nowISOString rt,
       metadata := (metadata p)\<lparr>elementsCount := Fin (real (length (elements p)))\<rparr>\<rparr>"

text \<open>
  The same of a value: an object whose metadata is an object and whose elements are an
  array, with the two properties set; every other value as it is.
\<close>

definition recounted :: "Runtime \<Rightarrow> jsval \<Rightarrow> jsval" where
  "recounted rt project =
     (case (project, field project ''metadata'', field project ''elements'') of
        (JObj kvs, JObj m, JArr els) \<Rightarrow>
          JObj (put ''metadata''
                  (JObj (put ''elementsCount'' (JNum (Fin (real (length els)))) m))
                  (put ''lastModified'' (JStr (nowISOString rt)) kvs))
      | _ \<Rightarrow> project)"

text \<open>
  The elements that the import accepts back: finite coordinates; for a circle a radius
  that, when there is one, is finite and not negative; for a rectangle and a terrain
  either neither width nor height, or both, finite and not negative.
\<close>

definition finite_nonneg :: "jsnum \<Rightarrow> bool" where
  "finite_nonneg n = (isFinite n \<and> \<not> num_lt n (Fin 0))"

definition exportable :: "DrawingElement \<Rightarrow> bool" where
  "exportable el =
     (isFinite (el_x el) \<and> isFinite (el_y el) \<and>
      (if el_type el = TCircle
       then (case el_radius el of None \<Rightarrow> True | Some r \<Rightarrow> finite_nonneg r)
       else if el_type el = TRectangle \<or> el_type el = TTerrain
       then (case (el_width el, el_height el) of
               (None, None) \<Rightarrow> True
             | (Some w, Some h) \<Rightarrow> finite_nonneg w \<and> finite_nonneg h
             | _ \<Rightarrow> False)
       else True))"

text \<open>
  A direct tally of a list of elements by type, as the specification words it: one pass
  over the list that counts each element in the category of its type.
\<close>

record Tally =
  n_plants :: nat
  n_terrain :: nat
  n_structures :: nat
  n_shapes :: nat

fun tally :: "DrawingElement list \<Rightarrow> Tally" where
  "tally [] = \<lparr>n_plants = 0, n_terrain = 0, n_structures = 0, n_shapes = 0\<rparr>"
| "tally (el # els) =
     (let t = tally els in
      case el_type el of
        TPlant \<Rightarrow> t\<lparr>n_plants := n_plants t + 1\<rparr>
      | TTerrain \<Rightarrow> t\<lparr>n_terrain := n_terrain t + 1\<rparr>
      | TStructure \<Rightarrow> t\<lparr>n_structures := n_structures t + 1\<rparr>
      | TRectangle \<Rightarrow> t\<lparr>n_shapes := n_shapes t + 1\<rparr>
      | TCircle \<Rightarrow> t\<lparr>n_shapes := n_shapes t + 1\<rparr>)"

section \<open>Sample values\<close>

text \<open>An element of the given type and id at the origin, with no optional field.\<close>

definition bare :: "ElementType \<Rightarrow> jsnum \<Rightarrow> DrawingElement" where
  "bare ty n =
     \<lparr>el_id = n, el_type = ty, el_x = Fin 0, el_y = Fin 0,
      el_width = None, el_height = None, el_radius = None, el_rotation = None,
      el_plant = None, el_terrain = None, el_structure = None,
      el_realWorldWidth = None, el_realWorldHeight = None, el_brushType = None,
      el_texture = None, el_pathPoints = None, el_selected = None,
      el_selectedBrushMode = None, el_brushThickness = None\<rparr>"

text \<open>A plant element whose dimensions hold a string, a boolean and \<open>null\<close>.\<close>

definition odd_plant :: jsval where
  "odd_plant = JObj
     [(''id'', JNum (Fin 1)), (''type'', JStr ''plant''), (''x'', JNum (Fin 0)),
      (''y'', JNum (Fin 0)), (''width'', JStr ''wide''), (''height'', JBool True),
      (''radius'', JNull)]"

text \<open>A rectangle with a width and no height.\<close>

definition strip :: DrawingElement where
  "strip = (bare TRectangle (Fin 1))\<lparr>el_width := Some (Fin 5)\<rparr>"

text \<open>A lettuce with the given spacing, and an element that plants it.\<close>

definition lettuce :: "string \<Rightarrow> Plant" where
  "lettuce sp =
     \<lparr>plant_id = ''alface'', plant_name = ''Alface'', plant_spacing = sp,
      plant_category = ''hortalicas'', plant_color = ''#90EE90''\<rparr>"

definition planted :: "string \<Rightarrow> DrawingElement" where
  "planted sp = (bare TPlant (Fin 1))\<lparr>el_plant := Some (lettuce sp)\<rparr>"

text \<open>
  A runtime whose storage takes every write. No property depends on how it formats
  numbers and dates.
\<close>

definition rt0 :: Runtime where
  "rt0 =
     \<lparr>Date_now = Fin 1700000000000,
      nowISOString = ''2023-11-14T22:13:20.000Z'',
      nowLocaleDate = ''14/11/2023'',
      toLocaleDateString = (\<lambda>t. ''14/11/2023''),
      toLocaleTimeString = (\<lambda>t. ''19:13''),
      numToString = (\<lambda>n. ''1''),
      stringify_chars = (\<lambda>v. ''{}''),
      setItem_ok = (\<lambda>s k v. True)\<rparr>"

text \<open>
  A project with one element whose metadata claims seven, with the given timestamp.
\<close>

definition project0 :: "jsnum \<Rightarrow> ProjectData" where
  "project0 ts =
     \<lparr>version = ''1.0'', timestamp = ts, lastModified = ''2023-01-01T00:00:00.000Z'',
      canvasSize = \<lparr>width = Fin 50, height = Fin 30\<rparr>,
      elements = [bare TRectangle (Fin 1)], selectedTool = ''select'',
      selectedPlant = Null, selectedTerrain = Absent, selectedStructure = Absent,
      metadata = \<lparr>elementsCount = Fin 7, totalArea = None, projectInfo = None,
                  tags = None\<rparr>\<rparr>"

text \<open>The same runtime with a storage that refuses every write.\<close>

definition rt_full :: Runtime where
  "rt_full = rt0\<lparr>setItem_ok := (\<lambda>s k v. False)\<rparr>"

text \<open>
  Values that are no projects: \<open>null\<close>, a string, an empty object, an array, and the
  objects that have every required field but a string as the width of the canvas, a
  string as the elements, or 0 as the timestamp.
\<close>

definition project_like :: "jsval \<Rightarrow> jsval \<Rightarrow> jsval \<Rightarrow> jsval" where
  "project_like w els ts = JObj
     [(''version'', JStr ''1.0''), (''timestamp'', ts),
      (''canvasSize'', JObj [(''width'', w), (''height'', JNum (Fin 30))]),
      (''elements'', els), (''selectedTool'', JStr ''select'')]"

definition no_projects :: "jsval list" where
  "no_projects =
     [JNull, JStr ''project'', JObj [], JArr [],
      JObj [(''version'', JStr ''1.0''), (''timestamp'', JNum (Fin 1700000000000))],
      project_like (JStr ''50'') (JArr []) (JNum (Fin 1700000000000)),
      project_like (JNum (Fin 50)) (JStr ''none'') (JNum (Fin 1700000000000)),
      project_like (JNum (Fin 50)) (JArr []) (JNum (Fin 0))]"

text \<open>
  A value that passes the structural check and is no typed project: its elements are no
  elements, its tool is a number, and its metadata counts \<open>many\<close>.
\<close>

definition loose_project :: jsval where
  "loose_project = JObj
     [(''version'', JStr ''1.0''), (''timestamp'', JNum (Fin 1700000000000)),
      (''canvasSize'', JObj [(''width'', JNum (Fin 50)), (''height'', JNum (Fin 30))]),
      (''elements'', JArr [JNull, JStr ''tree'']), (''selectedTool'', JNum (Fin 3)),
      (''metadata'', JObj [(''elementsCount'', JStr ''many'')])]"

text \<open>A history entry with the given id, and a storage that holds a history.\<close>

definition entry0 :: "string \<Rightarrow> string \<Rightarrow> ProjectHistoryEntry" where
  "entry0 i n =
     \<lparr>he_id = i, he_name = n, he_timestamp = Fin 1700000000000,
      he_lastModified = ''2023-11-14T22:13:20.000Z'',
      he_canvasSize = \<lparr>width = Fin 50, height = Fin 30\<rparr>,
      he_elementsCount = Fin 1, he_thumbnail = None, he_tags = None\<rparr>"

definition stored_history :: "ProjectHistoryEntry list \<Rightarrow> storage" where
  "stored_history h =
     Map.empty(PROJECT_HISTORY \<mapsto> JSON_stringify (JArr (map js_HistoryEntry h)))"

section \<open>Properties of the validator\<close>

lemma get_field: "truthy v \<Longrightarrow> get v k = Some (field v k)"
  by (cases v) (auto simp: field_def split: option.splits)

lemma reported_simps [simp]:
  "m \<noteq> [] \<Longrightarrow> reported (Some (invalid m))" "reported (Some valid)"
  by (simp_all add: reported_def invalid_def valid_def)

lemma rejected_simps [simp]:
  "m \<noteq> [] \<Longrightarrow> rejected (Some (invalid m))" "\<not> rejected (Some valid)"
  by (simp_all add: rejected_def invalid_def valid_def)

lemma rejected_iff: "reported res \<Longrightarrow> rejected res = (\<forall>r. res = Some r \<longrightarrow> \<not> isValid r)"
  by (auto simp: reported_def rejected_def split: option.splits)

subsection \<open>Every validator returns a result\<close>

text \<open>
  The proofs follow the shape of the code: a conditional reports when both branches do,
  a property read of a truthy value does not throw, and a block that hands on the failure
  of a nested validator reports when the nested validator and the rest do.
\<close>

lemma reported_if:
  "(c \<Longrightarrow> reported a) \<Longrightarrow> (\<not> c \<Longrightarrow> reported b) \<Longrightarrow> reported (if c then a else b)"
  by simp

lemma reported_get: "truthy v \<Longrightarrow> (\<And>x. reported (f x)) \<Longrightarrow> reported (get v k \<bind> f)"
  by (simp add: get_field)

lemma reported_Let: "reported (f x) \<Longrightarrow> reported (Let x f)"
  by simp

lemma reported_block:
  assumes "reported m" and "reported rest"
  shows "reported (m \<bind> (\<lambda>r. if \<not> isValid r then Some r else rest))"
  using assms by (auto simp: reported_def split: option.splits)

lemma validatePlant_reported: "reported (validatePlant v)"
  by (simp add: validatePlant_def get_field)

lemma validateTerrain_reported: "reported (validateTerrain v)"
  by (simp add: validateTerrain_def get_field)

lemma validateStructure_reported: "reported (validateStructure v)"
  by (simp add: validateStructure_def get_field)

lemma validateCanvasSize_reported:
  "sizes_given options \<Longrightarrow> reported (validateCanvasSize n2s v options)"
  by (cases "minCanvasSize options"; cases "maxCanvasSize options")
     (simp_all add: sizes_given_def validateCanvasSize_def get_field Let_def spread_def
        DEFAULT_VALIDATION_OPTIONS_def)

lemma validateDrawingElement_reported: "reported (validateDrawingElement v)"
  unfolding validateDrawingElement_def
  by (intro reported_if reported_get reported_Let reported_block
        validatePlant_reported validateTerrain_reported) simp_all

lemma validateElements_from_reported: "reported (validateElements_from n2s i es)"
proof (induction es arbitrary: i)
  case Nil
  show ?case by simp
next
  case (Cons e es)
  have "reported (validateDrawingElement e)"
    by (rule validateDrawingElement_reported)
  then show ?case
    using Cons [of "Suc i"] by (auto simp: reported_def invalid_def split: option.splits)
qed

lemma validateElementsArray_reported: "reported (validateElementsArray n2s v opts)"
  by (simp add: validateElementsArray_def Let_def validateElements_from_reported)

subsection \<open>Malformed inputs are rejected\<close>

lemma validatePlant_rejects: "malformed_plant v \<Longrightarrow> rejected (validatePlant v)"
  unfolding rejected_iff [OF validatePlant_reported]
  by (auto simp add: validatePlant_def get_field field_type_def invalid_def no_object_def
        lacks_def malformed_plant_def split: if_splits)

lemma validateTerrain_rejects: "malformed_terrain v \<Longrightarrow> rejected (validateTerrain v)"
  unfolding rejected_iff [OF validateTerrain_reported]
  by (auto simp add: validateTerrain_def get_field field_type_def invalid_def no_object_def
        lacks_def mistyped_def malformed_terrain_def split: if_splits)

lemma validateStructure_rejects: "malformed_structure v \<Longrightarrow> rejected (validateStructure v)"
  unfolding rejected_iff [OF validateStructure_reported]
  by (auto simp add: validateStructure_def get_field field_type_def invalid_def no_object_def
        lacks_def malformed_structure_def split: if_splits)

lemma validateCanvasSize_rejects:
  "malformed_size v \<Longrightarrow> rejected (validateCanvasSize n2s v options)"
  by (auto simp add: validateCanvasSize_def get_field field_type_def no_object_def
        lacks_def malformed_size_def Let_def)

text \<open>
  For the element validator the passing results are traced to the last line of the code:
  whatever passes has gone by every guard.
\<close>

lemma vo_invalid: "\<forall>r. Some (invalid m) = Some r \<longrightarrow> isValid r \<longrightarrow> G"
  by (simp add: invalid_def)

lemma vo_valid: "G \<Longrightarrow> \<forall>r. Some valid = Some r \<longrightarrow> isValid r \<longrightarrow> G"
  by simp

lemma vo_if:
  "(c \<Longrightarrow> \<forall>r. a = Some r \<longrightarrow> isValid r \<longrightarrow> G) \<Longrightarrow>
   (\<not> c \<Longrightarrow> \<forall>r. b = Some r \<longrightarrow> isValid r \<longrightarrow> G) \<Longrightarrow>
   \<forall>r. (if c then a else b) = Some r \<longrightarrow> isValid r \<longrightarrow> G"
  by simp

lemma vo_get:
  "(\<And>x. get v k = Some x \<Longrightarrow> \<forall>r. f x = Some r \<longrightarrow> isValid r \<longrightarrow> G) \<Longrightarrow>
   \<forall>r. (get v k \<bind> f) = Some r \<longrightarrow> isValid r \<longrightarrow> G"
  by (cases "get v k") auto

lemma vo_Let:
  "\<forall>r. f x = Some r \<longrightarrow> isValid r \<longrightarrow> G \<Longrightarrow> \<forall>r. Let x f = Some r \<longrightarrow> isValid r \<longrightarrow> G"
  by simp

lemma vo_block:
  "(\<And>p. m = Some p \<Longrightarrow> isValid p \<Longrightarrow> \<forall>r. rest = Some r \<longrightarrow> isValid r \<longrightarrow> G) \<Longrightarrow>
   \<forall>r. (m \<bind> (\<lambda>p. if \<not> isValid p then Some p else rest)) = Some r \<longrightarrow> isValid r \<longrightarrow> G"
  by (cases m) auto

lemma validateDrawingElement_passes_only:
  "\<forall>r. validateDrawingElement v = Some r \<longrightarrow> isValid r \<longrightarrow> \<not> malformed_element v"
  unfolding validateDrawingElement_def
  by (intro vo_if vo_invalid vo_get vo_Let vo_block vo_valid)
     (auto simp add: malformed_element_def no_object_def lacks_def field_type_def field_def
        mistyped_def rejected_def split: if_splits)

lemma validateDrawingElement_rejects:
  "malformed_element v \<Longrightarrow> rejected (validateDrawingElement v)"
  unfolding rejected_iff [OF validateDrawingElement_reported]
  using validateDrawingElement_passes_only by blast

lemma validateElements_from_rejects:
  "list_ex (\<lambda>e. rejected (validateDrawingElement e)) es
     \<Longrightarrow> rejected (validateElements_from n2s i es)"
proof (induction es arbitrary: i)
  case Nil
  then show ?case by simp
next
  case (Cons e es)
  have rep: "reported (validateDrawingElement e)"
    by (rule validateDrawingElement_reported)
  then obtain r where r: "validateDrawingElement e = Some r"
    by (auto simp: reported_def split: option.splits)
  show ?case
  proof (cases "isValid r")
    case True
    then have "\<not> rejected (validateDrawingElement e)"
      by (simp add: r rejected_def)
    with Cons.prems have "list_ex (\<lambda>e. rejected (validateDrawingElement e)) es"
      by simp
    then show ?thesis
      using Cons.IH [of "Suc i"] True by (simp add: r)
  next
    case False
    then show ?thesis by (simp add: r)
  qed
qed

lemma validateElementsArray_rejects:
  "malformed_elements v \<Longrightarrow> rejected (validateElementsArray n2s v opts)"
  by (auto simp add: malformed_elements_def validateElementsArray_def Let_def
        validateElements_from_rejects)

text \<open>
  With the largest size given as \<open>undefined\<close>, \<open>validateCanvasSize\<close> throws on a size
  that is an object with finite numbers.
\<close>

lemma validateCanvasSize_throws:
  "validateCanvasSize n2s (js_Size \<lparr>width = Fin 50, height = Fin 30\<rparr>)
     (no_options\<lparr>maxCanvasSize := SetUndefined\<rparr>) = None"
  by (simp add: validateCanvasSize_def js_Size_def no_options_def spread_def
        DEFAULT_VALIDATION_OPTIONS_def Let_def)

text \<open>
  C8, as it is stated, fails on an object with wrongly typed fields that the validator
  does not check: the plant element whose width is a string, whose height is a boolean
  and whose radius is \<open>null\<close> passes \<open>validateDrawingElement\<close>, which looks at the
  dimensions of rectangles, circles and terrains only.
\<close>

theorem validateDrawingElement_passes_odd_plant:
  "validateDrawingElement odd_plant = Some valid"
  by (simp add: validateDrawingElement_def odd_plant_def arr_includes_def num_gt_def)

text \<open>
  C8, amended. For every input value \<open>v\<close> (null, undefined, a primitive, an array or an
  object, whatever its fields hold), each of \<open>validatePlant\<close>, \<open>validateTerrain\<close>,
  \<open>validateStructure\<close>, \<open>validateDrawingElement\<close> and \<open>validateElementsArray\<close> returns a
  result and throws nothing, and so does \<open>validateCanvasSize\<close> when the smallest and
  the largest size of the options are each left out or given as a size; a result that
  fails carries an error message that is not empty. An input that is malformed in what
  the validator checks is rejected with such a message: a value that is no object; an
  object in which a required field is missing or holds a value of the wrong type; a
  terrain whose brush thickness, a rectangle, circle or terrain whose width, height or
  radius, an element whose rotation is there and is no number; a plant or terrain
  element whose embedded plant or terrain is rejected; a value that is no array, and an
  array with an element that is rejected. The validators are functions of the value they
  are given: the code has no assignment to it.
\<close>

theorem validators_return_results:
  "reported (validatePlant v) \<and>
   reported (validateTerrain v) \<and>
   reported (validateStructure v) \<and>
   reported (validateDrawingElement v) \<and>
   (sizes_given options \<longrightarrow> reported (validateCanvasSize num2str v options)) \<and>
   reported (validateElementsArray num2str v options) \<and>
   (malformed_plant v \<longrightarrow> rejected (validatePlant v)) \<and>
   (malformed_terrain v \<longrightarrow> rejected (validateTerrain v)) \<and>
   (malformed_structure v \<longrightarrow> rejected (validateStructure v)) \<and>
   (malformed_element v \<longrightarrow> rejected (validateDrawingElement v)) \<and>
   (malformed_size v \<longrightarrow> rejected (validateCanvasSize num2str v options)) \<and>
   (malformed_elements v \<longrightarrow> rejected (validateElementsArray num2str v options))"
proof -
  note rep = validatePlant_reported validateTerrain_reported validateStructure_reported
    validateDrawingElement_reported validateCanvasSize_reported validateElementsArray_reported
  note rej = validatePlant_rejects validateTerrain_rejects validateStructure_rejects
    validateDrawingElement_rejects validateCanvasSize_rejects validateElementsArray_rejects
  show ?thesis
    by (intro conjI impI rep rej) assumption+
qed

theorem validators_return_results_witness:
  "rejected (validatePlant JNull) \<and>
   rejected (validateTerrain (JStr ''grass'')) \<and>
   rejected (validateStructure (JObj [(''id'', JNum (Fin 3))])) \<and>
   rejected (validateDrawingElement
     (JObj [(''id'', JNum (Fin 1)), (''type'', JStr ''rectangle''), (''x'', JNum (Fin 0)),
            (''y'', JNum (Fin 0)), (''width'', JStr ''wide'')])) \<and>
   rejected (validateCanvasSize (\<lambda>n. ''1'') (JObj [(''width'', JNum (Fin 50))]) no_options) \<and>
   reported (validateCanvasSize (\<lambda>n. ''1'') (JObj [(''width'', JNum (Fin 50))]) no_options) \<and>
   rejected (validateElementsArray (\<lambda>n. ''1'') (JArr [JNull]) no_options)"
proof -
  let ?rect = "JObj [(''id'', JNum (Fin 1)), (''type'', JStr ''rectangle''),
    (''x'', JNum (Fin 0)), (''y'', JNum (Fin 0)), (''width'', JStr ''wide'')]"
  have "rejected (validatePlant JNull)"
    using validators_return_results [of JNull]
    by (simp add: malformed_plant_def no_object_def)
  moreover have "rejected (validateTerrain (JStr ''grass''))"
    using validators_return_results [of "JStr ''grass''"]
    by (simp add: malformed_terrain_def no_object_def)
  moreover have "rejected (validateStructure (JObj [(''id'', JNum (Fin 3))]))"
    using validators_return_results [of "JObj [(''id'', JNum (Fin 3))]"]
    by (simp add: malformed_structure_def lacks_def field_type_def field_def)
  moreover have "rejected (validateDrawingElement ?rect)"
    using validators_return_results [of ?rect]
    by (simp add: malformed_element_def mistyped_def field_type_def field_def)
  moreover have
    "rejected (validateCanvasSize (\<lambda>n. ''1'') (JObj [(''width'', JNum (Fin 50))]) no_options)"
    "reported (validateCanvasSize (\<lambda>n. ''1'') (JObj [(''width'', JNum (Fin 50))]) no_options)"
    using validators_return_results [of "JObj [(''width'', JNum (Fin 50))]" no_options "\<lambda>n. ''1''"]
    by (simp_all add: malformed_size_def lacks_def field_type_def field_def sizes_given_def
          no_options_def)
  moreover have "rejected (validateElementsArray (\<lambda>n. ''1'') (JArr [JNull]) no_options)"
    using validators_return_results [of "JArr [JNull]" no_options "\<lambda>n. ''1''"]
    by (simp add: malformed_elements_def validateDrawingElement_def)
  ultimately show ?thesis by simp
qed

subsection \<open>Elements the validator turns away\<close>

text \<open>
  C1. The claim: every DrawingElement that satisfies the invariants of the data model,
  whatever its type among plant, terrain, structure, rectangle and circle, passes
  \<open>validateDrawingElement\<close>. The code's list of valid types leaves \<open>structure\<close> out: the
  element of type \<open>structure\<close> with id 1 at the origin and no optional field is rejected,
  with the message that names the four types the validator knows, while the check of
  exported elements takes the same element.
\<close>

theorem validateDrawingElement_rejects_structure:
  "validateDrawingElement (js_DrawingElement (bare TStructure (Fin 1))) =
     Some (invalid ''Element type must be one of: plant, terrain, rectangle, circle'') \<and>
   validateExportElement (js_DrawingElement (bare TStructure (Fin 1))) = Some True"
  by (simp add: validateDrawingElement_def validateExportElement_def js_DrawingElement_def
        bare_def arr_includes_def)

theorem validateDrawingElement_rejects_structure_witness:
  "rejected (validateDrawingElement (js_DrawingElement (bare TStructure (Fin 1))))"
  using validateDrawingElement_rejects_structure by simp

text \<open>
  C10. Every DrawingElement whose id is the number 0 is rejected by
  \<open>validateDrawingElement\<close>: the truthiness test of the id fails before its type is
  looked at, and the result is the error about the element id.
\<close>

theorem validateDrawingElement_id_zero:
  "el_id el = Fin 0 \<Longrightarrow>
     validateDrawingElement (js_DrawingElement el) =
       Some (invalid ''Element ID is required and must be a number'')"
  by (simp add: validateDrawingElement_def js_DrawingElement_def)

theorem validateDrawingElement_id_zero_witness:
  "el_id (bare TCircle (Fin 0)) = Fin 0 \<and>
   validateDrawingElement (js_DrawingElement (bare TCircle (Fin 0))) =
     Some \<lparr>isValid = False, error = Some ''Element ID is required and must be a number'',
           warning = None\<rparr>"
  using validateDrawingElement_id_zero [of "bare TCircle (Fin 0)"]
  by (simp add: bare_def invalid_def)

section \<open>Properties of the persistence store\<close>

text \<open>What \<open>JSON.stringify\<close> writes is a JSON value, and writing it again changes nothing.\<close>

lemma JSON_value_defined: "JSON_value v \<noteq> JUndefined"
  by (cases v) auto

lemma JSON_idem:
  "JSON_value (JSON_value v) = JSON_value v"
  "JSON_props (JSON_props kvs) = JSON_props kvs"
  "JSON_items (JSON_items vs) = JSON_items vs"
  by (induction v and kvs and vs rule: JSON_value_JSON_props_JSON_items.induct)
     (auto simp: JSON_value_defined)

lemma JSON_items_map: "JSON_items vs = map JSON_value vs"
  by (induction vs) auto

text \<open>
  On a typed project the structural check comes down to the timestamp: every required
  field is there with its type.
\<close>

lemma validateProjectData_typed:
  "validateProjectData (js_ProjectData p) = Some (\<not> num_le (timestamp p) (Fin 0))"
  by (simp add: validateProjectData_def js_ProjectData_def js_Size_def)

text \<open>
  \<open>addToProjectHistory\<close> calls \<open>generateProjectId\<close> without an argument, the call
  throws, and the function returns from its \<open>catch\<close> before it has written.
\<close>

lemma addToProjectHistory_writes_nothing: "addToProjectHistory rt p st = st"
  by (simp add: addToProjectHistory_def generateProjectId_def)

lemma addToProjectHistory_untyped_writes_nothing:
  "addToProjectHistory_untyped rt project st = st"
  by (simp add: addToProjectHistory_untyped_def generateProjectId_def)

text \<open>
  On a typed project the two readings of \<open>saveCurrentProject\<close> agree: the save on the
  value of a project does to the value what the save on the project does to the project.
\<close>

lemma assign_lastModified:
  "assign (js_ProjectData p) ''lastModified'' (JStr t) =
     Some (js_ProjectData (p\<lparr>lastModified := t\<rparr>))"
  by (simp add: js_ProjectData_def)

lemma get_metadata:
  "get (js_ProjectData p) ''metadata'' = Some (js_Metadata (metadata p))"
  by (simp add: js_ProjectData_def)

lemma get_elements_length:
  "get (js_ProjectData p) ''elements'' = Some (JArr (map js_DrawingElement (elements p)))"
  by (simp add: js_ProjectData_def)

lemma assign_elementsCount:
  "assign (js_Metadata m) ''elementsCount'' (JNum n) =
     Some (js_Metadata (m\<lparr>elementsCount := n\<rparr>))"
  by (simp add: js_Metadata_def)

lemma assign_metadata:
  "assign (js_ProjectData p) ''metadata'' (js_Metadata m) =
     Some (js_ProjectData (p\<lparr>metadata := m\<rparr>))"
  by (simp add: js_ProjectData_def)

lemma saveCurrentProject_untyped_typed:
  "saveCurrentProject_untyped rt (js_ProjectData p) st =
     (case saveCurrentProject rt p st of (ok, p', st') \<Rightarrow> (ok, js_ProjectData p', st'))"
  by (simp add: saveCurrentProject_untyped_def saveCurrentProject_def
        validateProjectData_typed Let_def addToProjectHistory_writes_nothing
        addToProjectHistory_untyped_writes_nothing assign_lastModified get_metadata
        get_elements_length assign_elementsCount assign_metadata
        split: option.splits)

text \<open>
  C3. For every value that fails the structural check (a value that is no object, an
  object without one of the required fields, with a canvas size that is no object or
  whose width or height is no number, with elements that are no array, or with a
  timestamp that is no positive number), \<open>saveCurrentProject\<close> returns failure and
  writes nothing: the storage after the call is the storage before it, in the
  current-project slot, the last-save slot, the history slot and everywhere else, and the
  value is as it was. So it is, in particular, for a typed project.
\<close>

theorem saveCurrentProject_invalid_writes_nothing:
  "(validateProjectData project \<noteq> Some True \<longrightarrow>
      saveCurrentProject_untyped rt project st = (False, project, st)) \<and>
   (validateProjectData (js_ProjectData p) \<noteq> Some True \<longrightarrow>
      saveCurrentProject rt p st = (False, p, st))"
  by (auto simp add: saveCurrentProject_untyped_def saveCurrentProject_def split: option.splits)

theorem saveCurrentProject_invalid_writes_nothing_witness:
  "list_all
     (\<lambda>v. validateProjectData v = Some False \<and>
          saveCurrentProject_untyped rt0 v (stored_history [entry0 ''a'' ''A'']) =
            (False, v, stored_history [entry0 ''a'' ''A'']))
     no_projects \<and>
   validateProjectData (js_ProjectData (project0 (Fin 0))) = Some False \<and>
   saveCurrentProject rt0 (project0 (Fin 0)) (stored_history [entry0 ''a'' ''A'']) =
     (False, project0 (Fin 0), stored_history [entry0 ''a'' ''A''])"
proof -
  let ?st = "stored_history [entry0 ''a'' ''A'']"
  have check: "list_all (\<lambda>v. validateProjectData v = Some False) no_projects"
    by (simp add: no_projects_def project_like_def validateProjectData_def)
  have typed: "validateProjectData (js_ProjectData (project0 (Fin 0))) = Some False"
    by (simp add: validateProjectData_typed project0_def)
  have "\<And>v. validateProjectData v = Some False \<Longrightarrow>
      saveCurrentProject_untyped rt0 v ?st = (False, v, ?st)"
    using saveCurrentProject_invalid_writes_nothing [of _ rt0 ?st] by simp
  with check have "list_all
     (\<lambda>v. validateProjectData v = Some False \<and>
          saveCurrentProject_untyped rt0 v ?st = (False, v, ?st)) no_projects"
    by (simp add: list_all_iff)
  moreover have "saveCurrentProject rt0 (project0 (Fin 0)) ?st = (False, project0 (Fin 0), ?st)"
    using saveCurrentProject_invalid_writes_nothing [of _ rt0 ?st "project0 (Fin 0)"] typed
    by simp
  ultimately show ?thesis
    using typed by simp
qed

text \<open>
  C4. The claim: after a successful save the history holds the entry of the project just
  saved first, and at most 50 entries. The code never gets that far: whatever the
  runtime, the project and the storage, the history slot after \<open>saveCurrentProject\<close> is
  the history slot before it.
\<close>

theorem saveCurrentProject_leaves_history:
  "snd (snd (saveCurrentProject rt p st)) PROJECT_HISTORY = st PROJECT_HISTORY"
  by (auto simp add: saveCurrentProject_def addToProjectHistory_writes_nothing setItem_def
        Let_def CURRENT_PROJECT_def PROJECT_HISTORY_def LAST_SAVE_def split: option.splits)

theorem saveCurrentProject_leaves_history_witness:
  "fst (saveCurrentProject rt0 (project0 (Fin 1700000000000)) Map.empty) \<and>
   getProjectHistory
     (snd (snd (saveCurrentProject rt0 (project0 (Fin 1700000000000)) Map.empty))) = JArr []"
  using saveCurrentProject_leaves_history [of rt0 "project0 (Fin 1700000000000)" Map.empty]
  by (simp add: getProjectHistory_def saveCurrentProject_def validateProjectData_typed
        project0_def rt0_def setItem_def Let_def)

text \<open>
  C5, as it is stated, fails on a storage that refuses the write: the project below
  passes the structural check, its metadata counts seven elements where it has one, and
  the save returns failure.
\<close>

theorem saveCurrentProject_refused:
  "validateProjectData (js_ProjectData (project0 (Fin 1700000000000))) = Some True \<and>
   elementsCount (metadata (project0 (Fin 1700000000000))) = Fin 7 \<and>
   length (elements (project0 (Fin 1700000000000))) = 1 \<and>
   saveCurrentProject rt_full (project0 (Fin 1700000000000)) Map.empty =
     (False, as_saved rt_full (project0 (Fin 1700000000000)), Map.empty)"
  by (simp add: validateProjectData_typed saveCurrentProject_def setItem_def rt_full_def
        as_saved_def Let_def project0_def)

text \<open>
  The save on a value that passes the structural check and has an object as its
  metadata: the check has found an object with an array of elements, the two
  assignments go through, and the rest is the two writes.
\<close>

lemma map_of_put: "map_of (put k v kvs) k' = (if k' = k then Some v else map_of kvs k')"
  by (induction kvs) auto

lemma map_of_JSON_props_first:
  "map_of kvs k = Some v \<Longrightarrow> v \<noteq> JUndefined \<Longrightarrow>
     map_of (JSON_props kvs) k = Some (JSON_value v)"
  by (induction kvs) (auto split: if_splits)

lemma validateProjectData_object:
  assumes "validateProjectData v = Some True"
  shows "\<exists>kvs els. v = JObj kvs \<and> map_of kvs ''elements'' = Some (JArr els)"
proof (cases v)
  case (JObj kvs)
  with assms have "\<exists>els. get v ''elements'' = Some (JArr els)"
    by (auto simp add: validateProjectData_def split: if_splits bind_splits elim: isArray.elims)
  with JObj show ?thesis
    by (auto split: option.splits)
qed (use assms in \<open>simp_all add: validateProjectData_def\<close>)

lemma saveCurrentProject_untyped_result:
  assumes ok: "validateProjectData project = Some True"
    and meta: "field project ''metadata'' = JObj m"
  shows "saveCurrentProject_untyped rt project st =
     (let text = JSON_stringify (recounted rt project);
          st1 = st(CURRENT_PROJECT \<mapsto> text);
          stamp = Parses (JNum (Date_now rt))
      in if \<not> setItem_ok rt st CURRENT_PROJECT text then (False, recounted rt project, st)
         else if \<not> setItem_ok rt st1 LAST_SAVE stamp then (False, recounted rt project, st1)
         else (True, recounted rt project, st1(LAST_SAVE \<mapsto> stamp)))"
proof -
  from validateProjectData_object [OF ok] obtain kvs els
    where v: "project = JObj kvs" and els: "map_of kvs ''elements'' = Some (JArr els)"
    by blast
  from meta v have m: "map_of kvs ''metadata'' = Some (JObj m)"
    by (simp add: field_def split: option.splits)
  have r: "recounted rt project =
      JObj (put ''metadata'' (JObj (put ''elementsCount'' (JNum (Fin (real (length els)))) m))
              (put ''lastModified'' (JStr (nowISOString rt)) kvs))"
    by (simp add: recounted_def v field_def m els)
  show ?thesis
    unfolding r
    by (simp add: saveCurrentProject_untyped_def ok [unfolded v] v map_of_put m els setItem_def
          Let_def addToProjectHistory_untyped_writes_nothing)
qed

lemma recounted_stored:
  assumes ok: "validateProjectData project = Some True"
    and meta: "field project ''metadata'' = JObj m"
  shows "\<exists>stored meta els.
      JSON_stringify (recounted rt project) = Parses stored \<and>
      get stored ''metadata'' = Some meta \<and>
      get meta ''elementsCount'' = Some (JNum (Fin (real (length els)))) \<and>
      get stored ''elements'' = Some (JArr els) \<and>
      length els = length (items (field project ''elements''))"
proof -
  from validateProjectData_object [OF ok] obtain kvs els
    where v: "project = JObj kvs" and els: "map_of kvs ''elements'' = Some (JArr els)"
    by blast
  from meta v have m: "map_of kvs ''metadata'' = Some (JObj m)"
    by (simp add: field_def split: option.splits)
  let ?m = "put ''elementsCount'' (JNum (Fin (real (length els)))) m"
  let ?kvs = "put ''metadata'' (JObj ?m) (put ''lastModified'' (JStr (nowISOString rt)) kvs)"
  have r: "recounted rt project = JObj ?kvs"
    by (simp add: recounted_def v field_def m els)
  have 1: "map_of (JSON_props ?kvs) ''metadata'' = Some (JSON_value (JObj ?m))"
    by (rule map_of_JSON_props_first) (simp_all add: map_of_put)
  have 2: "map_of (JSON_props ?m) ''elementsCount'' =
      Some (JSON_value (JNum (Fin (real (length els)))))"
    by (rule map_of_JSON_props_first) (simp_all add: map_of_put)
  have 3: "map_of (JSON_props ?kvs) ''elements'' = Some (JSON_value (JArr els))"
    by (rule map_of_JSON_props_first) (simp_all add: map_of_put els)
  show ?thesis
    unfolding r
    by (simp add: JSON_stringify_def 1 2 3 JSON_items_map v field_def els)
qed

text \<open>On the value of a typed project, the recounted value is that of the project as saved.\<close>

lemma recounted_typed: "recounted rt (js_ProjectData p) = js_ProjectData (as_saved rt p)"
  by (simp add: recounted_def field_def js_ProjectData_def js_Metadata_def as_saved_def)

text \<open>
  The structural check does not look at the metadata. A value that passes it without a
  metadata object is not saved: the assignment of the count throws, and the save
  returns failure with nothing stored, whatever the storage.
\<close>

lemma saveCurrentProject_untyped_without_metadata:
  "validateProjectData (project_like (JNum (Fin 50)) (JArr []) (JNum (Fin 1700000000000)))
     = Some True \<and>
   fst (saveCurrentProject_untyped rt
         (project_like (JNum (Fin 50)) (JArr []) (JNum (Fin 1700000000000))) st) = False \<and>
   snd (snd (saveCurrentProject_untyped rt
         (project_like (JNum (Fin 50)) (JArr []) (JNum (Fin 1700000000000))) st)) = st"
  by (simp add: validateProjectData_def project_like_def saveCurrentProject_untyped_def)

text \<open>
  C5, amended. For every value that passes the structural check and has an object as
  its metadata, whatever its \<open>metadata.elementsCount\<close>, and so for every typed project
  that passes the check, \<open>saveCurrentProject\<close> returns success exactly when the storage
  takes the write of the current-project slot and then that of the last-save slot. What
  it writes to the current-project slot is the text of the project with the time of the
  save as \<open>lastModified\<close> and the number of its elements as \<open>metadata.elementsCount\<close>,
  every other field as the caller passed it: the stored \<open>metadata.elementsCount\<close> is the
  length of the stored elements. When the first write is refused nothing is stored; when
  the second is, the project is stored and the save still returns failure.
\<close>

theorem saveCurrentProject_stores_recounted:
  "(validateProjectData project = Some True \<and> field project ''metadata'' = JObj m \<longrightarrow>
      saveCurrentProject_untyped rt project st =
        (let text = JSON_stringify (recounted rt project);
             st1 = st(CURRENT_PROJECT \<mapsto> text);
             stamp = Parses (JNum (Date_now rt))
         in if \<not> setItem_ok rt st CURRENT_PROJECT text then (False, recounted rt project, st)
            else if \<not> setItem_ok rt st1 LAST_SAVE stamp
            then (False, recounted rt project, st1)
            else (True, recounted rt project, st1(LAST_SAVE \<mapsto> stamp))) \<and>
      (\<exists>stored meta els.
         JSON_stringify (recounted rt project) = Parses stored \<and>
         get stored ''metadata'' = Some meta \<and>
         get meta ''elementsCount'' = Some (JNum (Fin (real (length els)))) \<and>
         get stored ''elements'' = Some (JArr els) \<and>
         length els = length (items (field project ''elements'')))) \<and>
   (validateProjectData (js_ProjectData p) = Some True \<longrightarrow>
      saveCurrentProject rt p st =
        (let text = JSON_stringify (js_ProjectData (as_saved rt p));
             st1 = st(CURRENT_PROJECT \<mapsto> text);
             stamp = Parses (JNum (Date_now rt))
         in if \<not> setItem_ok rt st CURRENT_PROJECT text then (False, as_saved rt p, st)
            else if \<not> setItem_ok rt st1 LAST_SAVE stamp then (False, as_saved rt p, st1)
            else (True, as_saved rt p, st1(LAST_SAVE \<mapsto> stamp))) \<and>
      (\<exists>stored meta els.
         JSON_stringify (js_ProjectData (as_saved rt p)) = Parses stored \<and>
         get stored ''metadata'' = Some meta \<and>
         get meta ''elementsCount'' = Some (JNum (Fin (real (length (elements p))))) \<and>
         get stored ''elements'' = Some (JArr els) \<and>
         length els = length (elements p)))"
proof (intro conjI impI)
  assume "validateProjectData project = Some True \<and> field project ''metadata'' = JObj m"
  then have ok: "validateProjectData project = Some True"
    and meta: "field project ''metadata'' = JObj m"
    by simp_all
  show "saveCurrentProject_untyped rt project st =
        (let text = JSON_stringify (recounted rt project);
             st1 = st(CURRENT_PROJECT \<mapsto> text);
             stamp = Parses (JNum (Date_now rt))
         in if \<not> setItem_ok rt st CURRENT_PROJECT text then (False, recounted rt project, st)
            else if \<not> setItem_ok rt st1 LAST_SAVE stamp
            then (False, recounted rt project, st1)
            else (True, recounted rt project, st1(LAST_SAVE \<mapsto> stamp)))"
    by (rule saveCurrentProject_untyped_result [OF ok meta])
  show "\<exists>stored meta els.
         JSON_stringify (recounted rt project) = Parses stored \<and>
         get stored ''metadata'' = Some meta \<and>
         get meta ''elementsCount'' = Some (JNum (Fin (real (length els)))) \<and>
         get stored ''elements'' = Some (JArr els) \<and>
         length els = length (items (field project ''elements''))"
    by (rule recounted_stored [OF ok meta])
next
  assume ok: "validateProjectData (js_ProjectData p) = Some True"
  then show "saveCurrentProject rt p st =
        (let text = JSON_stringify (js_ProjectData (as_saved rt p));
             st1 = st(CURRENT_PROJECT \<mapsto> text);
             stamp = Parses (JNum (Date_now rt))
         in if \<not> setItem_ok rt st CURRENT_PROJECT text then (False, as_saved rt p, st)
            else if \<not> setItem_ok rt st1 LAST_SAVE stamp then (False, as_saved rt p, st1)
            else (True, as_saved rt p, st1(LAST_SAVE \<mapsto> stamp)))"
    by (simp add: saveCurrentProject_def Let_def setItem_def addToProjectHistory_writes_nothing
          as_saved_def)
  show "\<exists>stored meta els.
         JSON_stringify (js_ProjectData (as_saved rt p)) = Parses stored \<and>
         get stored ''metadata'' = Some meta \<and>
         get meta ''elementsCount'' = Some (JNum (Fin (real (length (elements p))))) \<and>
         get stored ''elements'' = Some (JArr els) \<and>
         length els = length (elements p)"
    by (simp add: as_saved_def JSON_stringify_def js_ProjectData_def js_Metadata_def
          JSON_items_map)
qed

theorem saveCurrentProject_stores_recounted_witness:
  "saveCurrentProject_untyped rt0 loose_project Map.empty =
     (True, recounted rt0 loose_project,
      [CURRENT_PROJECT \<mapsto> JSON_stringify (recounted rt0 loose_project),
       LAST_SAVE \<mapsto> Parses (JNum (Fin 1700000000000))]) \<and>
   field loose_project ''metadata'' = JObj [(''elementsCount'', JStr ''many'')] \<and>
   field (recounted rt0 loose_project) ''metadata'' = JObj [(''elementsCount'', JNum (Fin 2))] \<and>
   saveCurrentProject rt0 (project0 (Fin 1700000000000)) Map.empty =
     (True, as_saved rt0 (project0 (Fin 1700000000000)),
      [CURRENT_PROJECT \<mapsto>
         JSON_stringify (js_ProjectData (as_saved rt0 (project0 (Fin 1700000000000)))),
       LAST_SAVE \<mapsto> Parses (JNum (Fin 1700000000000))]) \<and>
   elementsCount (metadata (project0 (Fin 1700000000000))) = Fin 7 \<and>
   elementsCount (metadata (as_saved rt0 (project0 (Fin 1700000000000)))) = Fin 1 \<and>
   (\<exists>stored meta els.
      JSON_stringify (js_ProjectData (as_saved rt0 (project0 (Fin 1700000000000))))
        = Parses stored \<and>
      get stored ''metadata'' = Some meta \<and>
      get meta ''elementsCount'' = Some (JNum (Fin 1)) \<and>
      get stored ''elements'' = Some (JArr els) \<and>
      length els = 1)"
proof -
  have ok: "validateProjectData (js_ProjectData (project0 (Fin 1700000000000))) = Some True"
    by (simp add: validateProjectData_typed project0_def)
  have loose: "validateProjectData loose_project = Some True"
    "field loose_project ''metadata'' = JObj [(''elementsCount'', JStr ''many'')]"
    by (simp_all add: validateProjectData_def loose_project_def field_def)
  have n: "length (elements (project0 (Fin 1700000000000))) = 1"
    by (simp add: project0_def)
  have takes: "\<And>s k v. setItem_ok rt0 s k v" and now: "Date_now rt0 = Fin 1700000000000"
    by (simp_all add: rt0_def)
  have counts: "elementsCount (metadata (project0 (Fin 1700000000000))) = Fin 7"
    "elementsCount (metadata (as_saved rt0 (project0 (Fin 1700000000000)))) = Fin 1"
    "field (recounted rt0 loose_project) ''metadata'' = JObj [(''elementsCount'', JNum (Fin 2))]"
    by (simp_all add: as_saved_def project0_def recounted_def loose_project_def field_def)
  show ?thesis
    using saveCurrentProject_stores_recounted
      [of loose_project "[(''elementsCount'', JStr ''many'')]" rt0 Map.empty
        "project0 (Fin 1700000000000)"] ok loose counts
    by (simp add: Let_def takes now n)
qed

text \<open>
  C9. A successful \<open>saveCurrentProject\<close> leaves the caller's project object with
  \<open>lastModified\<close> set to the ISO string of the time of the save and
  \<open>metadata.elementsCount\<close> set to the number of elements; every other field of the
  object, and of its metadata, is what it was.
\<close>

theorem saveCurrentProject_mutates_argument:
  "saveCurrentProject rt p st = (True, p', st') \<Longrightarrow>
     p' = p\<lparr>lastModified := nowISOString rt,
            metadata := (metadata p)\<lparr>elementsCount := Fin (real (length (elements p)))\<rparr>\<rparr>"
  by (auto simp add: saveCurrentProject_def Let_def split: option.splits if_splits)

theorem saveCurrentProject_mutates_argument_witness:
  "fst (saveCurrentProject rt0 (project0 (Fin 1700000000000)) Map.empty) \<and>
   fst (snd (saveCurrentProject rt0 (project0 (Fin 1700000000000)) Map.empty)) =
     (project0 (Fin 1700000000000))
       \<lparr>lastModified := ''2023-11-14T22:13:20.000Z'',
        metadata := \<lparr>elementsCount = Fin 1, totalArea = None, projectInfo = None,
                      tags = None\<rparr>\<rparr>"
proof -
  let ?res = "saveCurrentProject rt0 (project0 (Fin 1700000000000)) Map.empty"
  have ok: "fst ?res"
    by (simp add: saveCurrentProject_def validateProjectData_typed project0_def rt0_def
          setItem_def Let_def)
  then have "?res = (True, fst (snd ?res), snd (snd ?res))"
    by (cases ?res) simp
  from saveCurrentProject_mutates_argument [OF this] ok show ?thesis
    by (simp add: project0_def rt0_def)
qed

subsection \<open>Deleting from the history\<close>

lemma get_id_entry: "get (JSON_value (js_HistoryEntry e)) ''id'' = Some (JStr (he_id e))"
  by (simp add: js_HistoryEntry_def)

lemma filter_other_ids_entries:
  "filter_other_ids pid (map (\<lambda>e. JSON_value (js_HistoryEntry e)) h) =
     Some (map (\<lambda>e. JSON_value (js_HistoryEntry e)) (filter (\<lambda>e. he_id e \<noteq> pid) h))"
  by (induction h) (auto simp: get_id_entry)

lemma stringify_entries:
  "JSON_stringify (JArr (map (\<lambda>e. JSON_value (js_HistoryEntry e)) h)) =
   JSON_stringify (JArr (map js_HistoryEntry h))"
  by (simp add: JSON_stringify_def JSON_items_map JSON_idem o_def)

lemma getProjectHistory_stored:
  "st PROJECT_HISTORY = Some (JSON_stringify (JArr (map js_HistoryEntry h))) \<Longrightarrow>
     getProjectHistory st = JArr (map (\<lambda>e. JSON_value (js_HistoryEntry e)) h)"
  by (simp add: getProjectHistory_def JSON_stringify_def JSON_items_map)

lemma length_filter_all: "(length (filter P xs) = length xs) = list_all P xs"
  unfolding list_all_iff
  by (metis filter_True length_filter_less less_irrefl filter_id_conv)

lemma delete_from_stored_history:
  assumes "st PROJECT_HISTORY = Some (JSON_stringify (JArr (map js_HistoryEntry h)))"
  shows "deleteProjectFromHistory rt pid st =
     (let kept = JSON_stringify (JArr (map js_HistoryEntry (filter (\<lambda>e. he_id e \<noteq> pid) h)))
      in if list_ex (\<lambda>e. he_id e = pid) h \<and> setItem_ok rt st PROJECT_HISTORY kept
         then (True, st(PROJECT_HISTORY \<mapsto> kept))
         else (False, st))"
proof -
  have len: "(length (filter (\<lambda>e. he_id e \<noteq> pid) h) = length h)
      = (\<not> list_ex (\<lambda>e. he_id e = pid) h)"
    by (simp add: length_filter_all list_all_iff list_ex_iff)
  show ?thesis
    using len
    by (simp add: deleteProjectFromHistory_def getProjectHistory_stored [of st h, OF assms]
          filter_other_ids_entries setItem_def stringify_entries Let_def)
qed

text \<open>
  C6, as it is stated, fails on a history in which two entries have the same id: one
  call deletes both.
\<close>

theorem deleteProjectFromHistory_removes_two:
  "length (items (getProjectHistory
          (stored_history [entry0 ''p1'' ''first'', entry0 ''p1'' ''second'']))) = 2 \<and>
   fst (deleteProjectFromHistory rt0 ''p1''
          (stored_history [entry0 ''p1'' ''first'', entry0 ''p1'' ''second''])) \<and>
   getProjectHistory (snd (deleteProjectFromHistory rt0 ''p1''
          (stored_history [entry0 ''p1'' ''first'', entry0 ''p1'' ''second'']))) = JArr []"
proof -
  let ?h = "[entry0 ''p1'' ''first'', entry0 ''p1'' ''second'']"
  have st: "stored_history ?h PROJECT_HISTORY = Some (JSON_stringify (JArr (map js_HistoryEntry ?h)))"
    by (simp add: stored_history_def)
  have "deleteProjectFromHistory rt0 ''p1'' (stored_history ?h) =
      (True, (stored_history ?h)(PROJECT_HISTORY \<mapsto> JSON_stringify (JArr [])))"
    using delete_from_stored_history [of "stored_history ?h" ?h rt0 "''p1''", OF st]
    by (simp add: Let_def rt0_def entry0_def)
  moreover have "length (items (getProjectHistory (stored_history ?h))) = 2"
    by (simp add: getProjectHistory_stored [of "stored_history ?h" ?h, OF st])
  ultimately show ?thesis
    by (simp add: getProjectHistory_def JSON_stringify_def)
qed

text \<open>
  C6, amended. For every stored history (a list of history entries) and every id,
  \<open>deleteProjectFromHistory\<close> returns failure, and leaves the storage as it was, if and
  only if no entry has that id or the storage refuses the write; on success it has
  removed every entry with that id, one or more, and has stored the other entries,
  unchanged and in their order.
\<close>

theorem deleteProjectFromHistory_filters:
  assumes "st PROJECT_HISTORY = Some (JSON_stringify (JArr (map js_HistoryEntry h)))"
  shows "deleteProjectFromHistory rt pid st =
     (let kept = JSON_stringify (JArr (map js_HistoryEntry (filter (\<lambda>e. he_id e \<noteq> pid) h)))
      in if list_ex (\<lambda>e. he_id e = pid) h \<and> setItem_ok rt st PROJECT_HISTORY kept
         then (True, st(PROJECT_HISTORY \<mapsto> kept))
         else (False, st))"
  by (rule delete_from_stored_history [of st h, OF assms])

theorem deleteProjectFromHistory_filters_witness:
  "deleteProjectFromHistory rt0 ''p2''
     (stored_history [entry0 ''p1'' ''first'', entry0 ''p2'' ''second'', entry0 ''p3'' ''third''])
   = (True, stored_history [entry0 ''p1'' ''first'', entry0 ''p3'' ''third'']) \<and>
   deleteProjectFromHistory rt0 ''p4''
     (stored_history [entry0 ''p1'' ''first'', entry0 ''p2'' ''second'', entry0 ''p3'' ''third''])
   = (False,
      stored_history [entry0 ''p1'' ''first'', entry0 ''p2'' ''second'', entry0 ''p3'' ''third''])"
proof -
  let ?h = "[entry0 ''p1'' ''first'', entry0 ''p2'' ''second'', entry0 ''p3'' ''third'']"
  have st: "stored_history ?h PROJECT_HISTORY = Some (JSON_stringify (JArr (map js_HistoryEntry ?h)))"
    by (simp add: stored_history_def)
  show ?thesis
    using deleteProjectFromHistory_filters [of "stored_history ?h" ?h rt0 "''p2''", OF st]
      deleteProjectFromHistory_filters [of "stored_history ?h" ?h rt0 "''p4''", OF st]
    by (simp add: stored_history_def entry0_def rt0_def Let_def)
qed

section \<open>Properties of the export and import\<close>

text \<open>
  Reading a serialised object: a property is there when the object has it with a value
  other than \<open>undefined\<close>, and it holds the serialised value.
\<close>

lemma JSON_props_keys: "k \<notin> fst ` set kvs \<Longrightarrow> map_of (JSON_props kvs) k = None"
  by (induction kvs) auto

lemma map_of_JSON_props:
  "distinct (map fst kvs) \<Longrightarrow>
     map_of (JSON_props kvs) k =
       (case map_of kvs k of
          None \<Rightarrow> None
        | Some v \<Rightarrow> if v = JUndefined then None else Some (JSON_value v))"
  by (induction kvs) (auto simp: JSON_props_keys split: option.splits)

lemma get_JSON_obj:
  "distinct (map fst kvs) \<Longrightarrow>
     get (JSON_value (JObj kvs)) k =
       Some (case map_of kvs k of
               None \<Rightarrow> JUndefined
             | Some v \<Rightarrow> if v = JUndefined then JUndefined else JSON_value v)"
  by (simp add: map_of_JSON_props split: option.splits)

lemma has_in_JSON_obj:
  assumes "distinct (map fst kvs)"
  shows "has_in k (JSON_value (JObj kvs)) =
       Some (case map_of kvs k of None \<Rightarrow> False | Some v \<Rightarrow> v \<noteq> JUndefined)"
proof -
  have "(k \<in> fst ` set (JSON_props kvs)) = (map_of (JSON_props kvs) k \<noteq> None)"
    by (metis map_of_eq_None_iff)
  then show ?thesis
    using map_of_JSON_props [OF assms, of k] by (auto split: option.splits)
qed

lemma JSON_obj_object:
  "truthy (JSON_value (JObj kvs))" "typeof (JSON_value (JObj kvs)) = ''object''"
  by simp_all

lemma validateExportElement_export:
  "validateExportElement (JSON_value (exportElement el)) = Some (exportable el)"
  unfolding validateExportElement_def exportElement_def
  apply (simp add: get_JSON_obj has_in_JSON_obj JSON_obj_object arr_includes_def
           del: JSON_value.simps(7))
  apply (cases "el_type el")
      apply (auto simp add: exportable_def finite_nonneg_def split: option.splits)
  done

lemma all_export_elements_export:
  "all_export_elements (map (\<lambda>el. JSON_value (exportElement el)) E) =
     Some (list_all exportable E)"
  by (induction E) (auto simp: validateExportElement_export)

lemma count_tally:
  "count_where (\<lambda>el. el_type el = TPlant) E = JNum (Fin (real (n_plants (tally E))))"
  "count_where (\<lambda>el. el_type el = TTerrain) E = JNum (Fin (real (n_terrain (tally E))))"
  "count_where (\<lambda>el. el_type el = TStructure) E = JNum (Fin (real (n_structures (tally E))))"
  "count_where (\<lambda>el. el_type el = TRectangle \<or> el_type el = TCircle) E =
     JNum (Fin (real (n_shapes (tally E))))"
  by (induction E; simp add: count_where_def Let_def split: ElementType.splits)+

lemma validateExportData_export:
  "validateExportData (JSON_value (createExportData rt E C name)) =
     Some (list_all exportable E)"
  unfolding validateExportData_def createExportData_def Let_def
  by (simp add: get_JSON_obj has_in_JSON_obj JSON_obj_object js_Size_def JSON_items_map o_def
        all_export_elements_export del: JSON_value.simps(7))

text \<open>The import of an export is present exactly when every element is exportable.\<close>

lemma import_export:
  "importProjectFromJSON (JSON_stringify (createExportData rt E C name)) =
     (if list_all exportable E then Some (JSON_value (createExportData rt E C name)) else None)"
proof -
  have "createExportData rt E C name \<noteq> JUndefined"
    by (simp add: createExportData_def Let_def)
  then show ?thesis
    by (simp add: importProjectFromJSON_def JSON_stringify_def validateExportData_export)
qed

lemma export_info:
  "\<exists>info cats.
     get (JSON_value (createExportData rt E C name)) ''projectInfo'' = Some info \<and>
     get info ''totalElements'' = Some (JNum (Fin (real (length E)))) \<and>
     get info ''categories'' = Some cats \<and>
     get cats ''plants'' = Some (JNum (Fin (real (n_plants (tally E))))) \<and>
     get cats ''terrain'' = Some (JNum (Fin (real (n_terrain (tally E))))) \<and>
     get cats ''structures'' = Some (JNum (Fin (real (n_structures (tally E))))) \<and>
     get cats ''shapes'' = Some (JNum (Fin (real (n_shapes (tally E)))))"
  unfolding createExportData_def Let_def
  by (simp add: get_JSON_obj count_tally del: JSON_value.simps(7))

text \<open>
  C2, as it is stated, fails on a list that holds a rectangle with a width and no height.
  The element passes \<open>validateDrawingElement\<close>, and the import of its export is
  \<open>null\<close>: the check of an exported rectangle wants both dimensions once it finds one.
\<close>

theorem import_of_export_absent:
  "validateDrawingElement (js_DrawingElement strip) = Some valid \<and>
   importProjectFromJSON
     (JSON_stringify (createExportData rt0 [strip] \<lparr>width = Fin 50, height = Fin 30\<rparr> None))
     = None"
proof -
  have "validateDrawingElement (js_DrawingElement strip) = Some valid"
    by (simp add: validateDrawingElement_def js_DrawingElement_def strip_def bare_def
          arr_includes_def num_gt_def)
  moreover have "\<not> exportable strip"
    by (simp add: exportable_def strip_def bare_def)
  ultimately show ?thesis
    by (simp add: import_export)
qed

text \<open>
  C2, amended. For every list \<open>E\<close> of elements each of which has finite coordinates, as
  a circle a radius that is absent or finite and not negative, and as a rectangle or a
  terrain a width and a height that are both absent or both finite and not negative, and
  for every canvas size and project name, the import of the serialised export of \<open>E\<close>
  is present, its \<open>projectInfo.totalElements\<close> is the length of \<open>E\<close>, and its
  category counts are those of a direct tally of \<open>E\<close> by type.
\<close>

theorem import_of_export_present:
  assumes "list_all exportable E"
  shows "\<exists>data info cats.
     importProjectFromJSON (JSON_stringify (createExportData rt E C name)) = Some data \<and>
     get data ''projectInfo'' = Some info \<and>
     get info ''totalElements'' = Some (JNum (Fin (real (length E)))) \<and>
     get info ''categories'' = Some cats \<and>
     get cats ''plants'' = Some (JNum (Fin (real (n_plants (tally E))))) \<and>
     get cats ''terrain'' = Some (JNum (Fin (real (n_terrain (tally E))))) \<and>
     get cats ''structures'' = Some (JNum (Fin (real (n_structures (tally E))))) \<and>
     get cats ''shapes'' = Some (JNum (Fin (real (n_shapes (tally E)))))"
  using assms export_info [of rt E C name] by (simp add: import_export)

theorem import_of_export_present_witness:
  "list_all exportable [planted ''2m'', bare TCircle (Fin 2), bare TStructure (Fin 3)] \<and>
   (\<exists>data info cats.
     importProjectFromJSON (JSON_stringify (createExportData rt0
         [planted ''2m'', bare TCircle (Fin 2), bare TStructure (Fin 3)]
         \<lparr>width = Fin 50, height = Fin 30\<rparr> (Some ''Horta''))) = Some data \<and>
     get data ''projectInfo'' = Some info \<and>
     get info ''totalElements'' = Some (JNum (Fin 3)) \<and>
     get info ''categories'' = Some cats \<and>
     get cats ''plants'' = Some (JNum (Fin 1)) \<and>
     get cats ''terrain'' = Some (JNum (Fin 0)) \<and>
     get cats ''structures'' = Some (JNum (Fin 1)) \<and>
     get cats ''shapes'' = Some (JNum (Fin 1)))"
proof -
  let ?E = "[planted ''2m'', bare TCircle (Fin 2), bare TStructure (Fin 3)]"
  have ok: "list_all exportable ?E"
    by (simp add: exportable_def planted_def bare_def)
  have t: "tally ?E = \<lparr>n_plants = 1, n_terrain = 0, n_structures = 1, n_shapes = 1\<rparr>"
    by (simp add: planted_def bare_def)
  note present = import_of_export_present
    [OF ok, of rt0 "\<lparr>width = Fin 50, height = Fin 30\<rparr>" "Some ''Horta''", unfolded t]
  show ?thesis
    using present ok by simp
qed

section \<open>Properties of the statistics\<close>

text \<open>An integer of fewer than 54 bits is a double: rounding leaves it as it is.\<close>

lemma round_half_even_int: "round_half_even (of_int n) = n"
  by (simp add: round_half_even_def)

lemma round_double_int:
  assumes "\<bar>n\<bar> < 2 ^ 53"
  shows "round_double (of_int n) = Fin (of_int n)"
proof (cases "n = 0")
  case True
  then show ?thesis by (simp add: round_double_def)
next
  case False
  define x :: real where "x = \<bar>of_int n\<bar>"
  have x1: "1 \<le> x"
    using False by (simp add: x_def)
  have x53: "x < 2 ^ 53"
    using assms unfolding x_def
    by (metis of_int_abs of_int_less_numeral_power_cancel_iff)
  define e where "e = \<lfloor>log 2 x\<rfloor>"
  have e0: "0 \<le> e"
    using x1 by (simp add: e_def)
  have "log 2 x < 53"
    using x53 x1 by (simp add: log_less_iff powr_realpow)
  then have e52: "e \<le> 52"
    unfolding e_def by linarith
  have maxe: "max e (- 1022) = e"
    using e0 by simp
  define k where "k = nat (52 - e)"
  have k: "e - 52 = - int k"
    using e52 by (simp add: k_def)
  have ulp: "(2::real) powi (e - 52) = 1 / 2 ^ k"
    unfolding k by (simp add: power_int_minus field_simps)
  have q: "x / (1 / 2 ^ k) = of_int (\<bar>n\<bar> * 2 ^ k)"
    by (simp add: x_def)
  have y: "of_int (round_half_even (x / (1 / 2 ^ k))) * (1 / 2 ^ k) = x"
    unfolding q round_half_even_int by (simp add: x_def)
  have "(2::real) ^ 53 \<le> 2 ^ 1024"
    by (rule power_increasing) simp_all
  with x53 have big: "x < 2 ^ 1024"
    by linarith
  have nz: "(of_int n :: real) \<noteq> 0"
    using False by simp
  have "round_double (of_int n) =
      (if 2 ^ 1024 \<le> x then (if 0 < (of_int n :: real) then PosInf else NegInf)
       else Fin (sgn (of_int n) * x))"
    unfolding round_double_def Let_def x_def [symmetric] e_def [symmetric] maxe ulp y
    using nz by (simp only: if_False)
  moreover have "sgn (of_int n :: real) * x = of_int n"
    by (simp add: x_def sgn_mult_abs)
  ultimately show ?thesis
    using big by (simp only: not_le [symmetric] if_False)
qed

lemma round_double_small:
  "round_double 0 = Fin 0" "round_double 2 = Fin 2" "round_double 4 = Fin 4"
  using round_double_int [of 0] round_double_int [of 2] round_double_int [of 4]
  by simp_all

text \<open>
  The arithmetic of the statistics is that of doubles: a tenth rounds to the double the
  validators compare with, a product beyond the largest double is \<open>Infinity\<close>, and the
  spacing \<open>10x20cm\<close> averages to 0.15000000000000002, the double next above 0.15.
\<close>

lemma round_double_eval:
  assumes lo: "2 powi e \<le> \<bar>x\<bar>" and hi: "\<bar>x\<bar> < 2 powi (e + 1)" and e: "- 1022 \<le> e"
    and m: "round_half_even (\<bar>x\<bar> / 2 powi (e - 52)) = m"
  shows "round_double x =
     (if 2 ^ 1024 \<le> (of_int m :: real) * 2 powi (e - 52)
      then (if 0 < x then PosInf else NegInf)
      else Fin (sgn x * (of_int m * 2 powi (e - 52))))"
proof -
  have pos: "0 < \<bar>x\<bar>"
  proof -
    have "0 < (2::real) powi e" by simp
    with lo show ?thesis by linarith
  qed
  then have nz: "x \<noteq> 0" by simp
  have p1: "(2::real) powr of_int e = 2 powi e" and p2: "(2::real) powr of_int (e + 1) = 2 powi (e + 1)"
    by (subst powr_real_of_int'; simp)+
  have "(2::real) powr of_int e \<le> \<bar>x\<bar>"
    using lo by (simp only: p1)
  then have "of_int e \<le> log 2 \<bar>x\<bar>"
    using pos by (subst le_log_iff) simp_all
  moreover have "\<bar>x\<bar> < (2::real) powr of_int (e + 1)"
    using hi by (simp only: p2)
  then have "log 2 \<bar>x\<bar> < of_int (e + 1)"
    using pos by (subst log_less_iff) simp_all
  ultimately have fl: "\<lfloor>log 2 \<bar>x\<bar>\<rfloor> = e"
    by (simp add: floor_eq_iff)
  have maxe: "max e (- 1022) = e" using e by simp
  show ?thesis
    unfolding round_double_def Let_def fl maxe m using nz by (simp only: if_False)
qed

lemma round_double_tenth: "round_double (1 / 10) = tenth"
  using round_double_eval [of "-4" "1/10" 7205759403792794]
  by (simp add: tenth_def round_half_even_def power_int_minus)

lemma num_mul_overflows: "num_mul (Fin (2 ^ 600)) (Fin (2 ^ 600)) = PosInf"
  using round_double_eval [of 1200 "2 ^ 600 * 2 ^ 600" "2 ^ 52"]
  by (simp add: round_half_even_def power_int_minus)

lemma num_add_rounds:
  "num_add (round_double (10 / 100)) (round_double (20 / 100)) =
     Fin (5404319552844596 / 2 ^ 54)"
  using round_double_eval [of "-4" "10/100" 7205759403792794]
    round_double_eval [of "-3" "20/100" 7205759403792794]
    round_double_eval [of "-2" "3602879701896397 / 2 ^ 55 + 3602879701896397 / 2 ^ 54" 5404319552844596]
  by (simp add: round_half_even_def power_int_minus)

lemma averageSpacing_rounds:
  "st_averageSpacing (calculateProjectStatistics [planted ''10x20cm'']) =
     Fin (5404319552844596 / 2 ^ 55)"
proof -
  have m: "spacing_match ''10x20cm'' = Some (''10'', ''20'', ''cm'')"
    by (simp add: match_here_def scan_decimal_def is_digit_def)
  have p: "parseFloat ''10'' = Fin 10" "parseFloat ''20'' = Fin 20"
    using round_double_int [of 10] round_double_int [of 20]
    by (simp_all add: parseFloat_def digits_value_def is_digit_def)
  have half: "round_double (5404319552844596 / 2 ^ 55) = Fin (5404319552844596 / 2 ^ 55)"
    using round_double_eval [of "-3" "5404319552844596 / 2 ^ 55" 5404319552844596]
    by (simp add: round_half_even_def power_int_minus)
  show ?thesis
    using num_add_rounds half
    by (simp add: calculateProjectStatistics_def count_type_def count_selected_def
          add_spacing_def planted_def lettuce_def bare_def p match_here_def
          scan_decimal_def is_digit_def)
qed

text \<open>
  C7. The claim: the average spacing is the mean of the planting distances, each parsed
  from a spacing in any of the four formats. For the one plant with the spacing \<open>2m\<close>,
  which \<open>validatePlant\<close> takes as a valid plant, the code computes the average 0: its
  pattern finds a spacing only where two numbers are joined by \<open>x\<close>, as in \<open>2x2m\<close>,
  where it computes 2.
\<close>

theorem averageSpacing_of_single_number:
  "validatePlant (js_Plant (lettuce ''2m'')) = Some valid \<and>
   st_plants (calculateProjectStatistics [planted ''2m'']) = 1 \<and>
   st_averageSpacing (calculateProjectStatistics [planted ''2m'']) = Fin 0 \<and>
   st_averageSpacing (calculateProjectStatistics [planted ''2x2m'']) = Fin 2"
proof -
  have "validatePlant (js_Plant (lettuce ''2m'')) = Some valid"
    by (simp add: validatePlant_def js_Plant_def lettuce_def spacingPattern_def decimal_def
          Plus_def Opt_def Lit_def digit_def colorPattern_def hexdigit_def num_gt_def)
  moreover have "spacing_match ''2m'' = None"
    by (simp add: match_here_def scan_decimal_def is_digit_def)
  moreover have "spacing_match ''2x2m'' = Some (''2'', ''2'', ''m'')"
    by (simp add: match_here_def scan_decimal_def is_digit_def)
  moreover have "parseFloat ''2'' = Fin 2"
    by (simp add: parseFloat_def digits_value_def is_digit_def round_double_small)
  ultimately show ?thesis
    by (simp add: calculateProjectStatistics_def count_type_def count_selected_def
          add_spacing_def planted_def lettuce_def bare_def round_double_small)
qed

theorem averageSpacing_of_single_number_witness:
  "st_averageSpacing (calculateProjectStatistics [planted ''2m'']) \<noteq> Fin 2"
  using averageSpacing_of_single_number by simp


end
